theory Spec2Isabelle
  imports Complex_Main "HOL-Library.Word"
begin

section \<open>Label fusion: \<open>segment_pcd_from_2d\<close> (src/utils/segmentation.py)\<close>

text \<open>
  The function projects a point cloud through a pinhole camera and gives every point the
  class of the detector mask that covers its pixel. Tensors are modelled as (nested)
  lists and every place where torch raises is a branch that returns an error.

  A float is modelled by the real number it stands for (finite values only). What the
  float arithmetic of torch returns is not computed here: the rounded operations are
  parameters of the model (\<open>float_impl\<close>), and every property below holds for all of
  them. Comparisons, \<open>torch.max\<close>, \<open>torch.round\<close> and the conversion of a float to
  an integer type that can hold it are exact on floats and are defined.

  The detector call \<open>res = model(color)\<close> is external: its result is an input of the
  model, namely \<open>res[0].masks.data\<close> (shape \<open>(K, H', W')\<close>) and \<open>res[0].boxes.cls\<close>.
  Of the colour image only its shape \<open>(H, W)\<close> is read.
\<close>

datatype error = RuntimeError | IndexError

type_synonym point = "real \<times> real \<times> real"
type_synonym matrix = "real list list"
type_synonym mask = "real list list"

record detections =
  masks_shape :: "nat \<times> nat"
  masks_data :: "mask list"
  boxes_cls :: "real list"

subsection \<open>Float arithmetic\<close>

text \<open>
  The operations whose result depends on rounding, on the kernel or on the device:
  \<^item> \<open>matmul_dot row col\<close>: one entry of the matrix product \<open>@\<close>, the product of a row
    and a column as the kernel accumulates it;
  \<^item> \<open>fmul\<close>, \<open>fdiv\<close>, \<open>fadd\<close>: the element-wise \<open>*\<close>, \<open>/\<close>, \<open>+\<close> of two floats;
  \<^item> \<open>upsample_bilinear m in_shape out_shape v u\<close>: the value at row \<open>v\<close>, column \<open>u\<close>
    of \<open>torch.nn.functional.interpolate(m, size=out_shape, mode='bilinear',
    align_corners=False)\<close>;
  \<^item> \<open>int32_overflow x\<close>, \<open>int64_overflow x\<close>: what the conversion of \<open>x\<close> to
    \<open>int32\<close>, to \<open>int64\<close>, gives when \<open>x\<close> is out of range (the minimum on x86, the
    nearest bound on CUDA).
\<close>

record float_impl =
  matmul_dot :: "real list \<Rightarrow> real list \<Rightarrow> real"
  fmul :: "real \<Rightarrow> real \<Rightarrow> real"
  fdiv :: "real \<Rightarrow> real \<Rightarrow> real"
  fadd :: "real \<Rightarrow> real \<Rightarrow> real"
  upsample_bilinear :: "mask \<Rightarrow> nat \<times> nat \<Rightarrow> nat \<times> nat \<Rightarrow> nat \<Rightarrow> nat \<Rightarrow> real"
  int32_overflow :: "real \<Rightarrow> 32 word"
  int64_overflow :: "real \<Rightarrow> 64 word"

subsection \<open>Library primitives\<close>

text \<open>\<open>torch.round\<close>: nearest integer, a tie goes to the even neighbour.\<close>

definition torch_round :: "real \<Rightarrow> int" where
  "torch_round x =
     (let f = \<lfloor>x\<rfloor>; d = x - of_int f
      in if d < 1 / 2 then f
         else if 1 / 2 < d then f + 1
         else if even f then f else f + 1)"

text \<open>
  \<open>Tensor.int()\<close> on a float tensor: the conversion to \<open>int32\<close>. It truncates toward
  zero; a value that does not fit into 32 bits gives whatever the platform gives.
\<close>

definition to_int :: "float_impl \<Rightarrow> real \<Rightarrow> int" where
  "to_int fl x =
     (let t = (if 0 \<le> x then \<lfloor>x\<rfloor> else \<lceil>x\<rceil>)
      in if - (2 ^ 31) \<le> t \<and> t < 2 ^ 31 then t else sint (int32_overflow fl x))"

text \<open>
  \<open>Tensor.long()\<close> on a float tensor that holds whole numbers (the result of
  \<open>torch.round\<close>): the conversion to \<open>int64\<close>.
\<close>

definition to_long :: "float_impl \<Rightarrow> int \<Rightarrow> int" where
  "to_long fl n =
     (if - (2 ^ 63) \<le> n \<and> n < 2 ^ 63 then n else sint (int64_overflow fl (of_int n)))"

text \<open>\<open>t[mask]\<close> with a boolean mask, and \<open>torch.nonzero(mask).squeeze(1)\<close>.\<close>

definition boolean_index :: "'a list \<Rightarrow> bool list \<Rightarrow> 'a list" where
  "boolean_index xs bs = map fst (filter snd (zip xs bs))"

definition nonzero :: "bool list \<Rightarrow> nat list" where
  "nonzero bs = filter (\<lambda>i. bs ! i) [0..<length bs]"

text \<open>
  \<open>torch.nn.functional.interpolate(..., size=(H, W), mode='bilinear',
  align_corners=False)\<close> on a batch of masks: every mask becomes \<open>H\<close> rows of \<open>W\<close>
  values. Empty spatial sizes are refused; an empty batch is not.
\<close>

definition interpolate_bilinear ::
  "float_impl \<Rightarrow> nat \<times> nat \<Rightarrow> mask list \<Rightarrow> nat \<times> nat \<Rightarrow> error + mask list" where
  "interpolate_bilinear fl in_shape ms out_shape =
     (if fst in_shape = 0 \<or> snd in_shape = 0 \<or> fst out_shape = 0 \<or> snd out_shape = 0
      then Inl RuntimeError
      else Inr (map (\<lambda>m. map (\<lambda>v. map (\<lambda>u. upsample_bilinear fl m in_shape out_shape v u)
                                     [0..<snd out_shape])
                           [0..<fst out_shape]) ms))"

text \<open>
  \<open>torch.max(t, dim=0)\<close> on a \<open>(K, P)\<close> tensor given as its \<open>K\<close> rows: the maximum of
  every column and the index of its first occurrence. A reduction over a dimension of
  size zero raises (\<open>max(): Expected reduction dim 0 to have non-zero size\<close>).
\<close>

fun max_from :: "real \<Rightarrow> nat \<Rightarrow> nat \<Rightarrow> real list \<Rightarrow> real \<times> nat" where
  "max_from best bi i [] = (best, bi)"
| "max_from best bi i (y # ys) =
     (if best < y then max_from y i (Suc i) ys else max_from best bi (Suc i) ys)"

definition max_with_index :: "real list \<Rightarrow> real \<times> nat" where
  "max_with_index col = max_from (hd col) 0 1 (tl col)"

definition torch_max_dim0 :: "real list list \<Rightarrow> error + (real list \<times> nat list)" where
  "torch_max_dim0 rows =
     (if rows = [] then Inl IndexError
      else let cols = map (\<lambda>j. map (\<lambda>r. r ! j) rows) [0..<length (hd rows)]
           in Inr (map (fst \<circ> max_with_index) cols, map (snd \<circ> max_with_index) cols))"

text \<open>\<open>t[ids]\<close> with a tensor of indices: an index past the end raises.\<close>

definition index_select :: "'a list \<Rightarrow> nat list \<Rightarrow> error + 'a list" where
  "index_select xs ids =
     (if list_all (\<lambda>k. k < length xs) ids then Inr (map (\<lambda>k. xs ! k) ids)
      else Inl IndexError)"

text \<open>\<open>t[ids] = vals\<close>: the indices here come from \<open>nonzero\<close>, hence are in range.\<close>

definition index_put :: "'a list \<Rightarrow> nat list \<Rightarrow> 'a list \<Rightarrow> 'a list" where
  "index_put t ids vals = fold (\<lambda>(i, x) acc. acc[i := x]) (zip ids vals) t"

subsection \<open>The function\<close>

text \<open>
  Rows 0..2 of \<open>extrinsic @ [x, y, z, 1]\<close>: the camera-frame position the code
  computes for a point.
\<close>

definition to_camera :: "float_impl \<Rightarrow> matrix \<Rightarrow> point \<Rightarrow> point" where
  "to_camera fl E p =
     (case p of (x, y, z) \<Rightarrow>
        (matmul_dot fl (E ! 0) [x, y, z, 1],
         matmul_dot fl (E ! 1) [x, y, z, 1],
         matmul_dot fl (E ! 2) [x, y, z, 1]))"

definition depth_of :: "point \<Rightarrow> real" where
  "depth_of pc = (case pc of (x, y, z) \<Rightarrow> z)"

text \<open>\<open>torch.round((x * fx / z) + cx).long()\<close> and \<open>torch.round((y * fy / z) + cy).long()\<close>.\<close>

definition pixel_u :: "float_impl \<Rightarrow> matrix \<Rightarrow> point \<Rightarrow> int" where
  "pixel_u fl K pc =
     (case pc of (x, y, z) \<Rightarrow>
        to_long fl (torch_round (fadd fl (fdiv fl (fmul fl x (K ! 0 ! 0)) z) (K ! 0 ! 2))))"

definition pixel_v :: "float_impl \<Rightarrow> matrix \<Rightarrow> point \<Rightarrow> int" where
  "pixel_v fl K pc =
     (case pc of (x, y, z) \<Rightarrow>
        to_long fl (torch_round (fadd fl (fdiv fl (fmul fl y (K ! 1 ! 1)) z) (K ! 1 ! 2))))"

definition segment_pcd_from_2d ::
  "float_impl \<Rightarrow> detections \<Rightarrow> matrix \<Rightarrow> matrix \<Rightarrow> point list \<Rightarrow> nat \<times> nat
     \<Rightarrow> error + int list" where
  "segment_pcd_from_2d fl res intrinsic extrinsic points_3d color_shape =
     (case color_shape of (H, W) \<Rightarrow>
       (case interpolate_bilinear fl (masks_shape res) (masks_data res) (H, W) of
          Inl e \<Rightarrow> Inl e
        | Inr masks_resized \<Rightarrow>
           (let N = length points_3d;
                points_cam_all = map (to_camera fl extrinsic) points_3d;
                valid_depth = map (\<lambda>pc. 0 < depth_of pc) points_cam_all;
                points_cam = boolean_index points_cam_all valid_depth;
                indices = nonzero valid_depth;
                u = map (pixel_u fl intrinsic) points_cam;
                v = map (pixel_v fl intrinsic) points_cam;
                in_bounds = map2 (\<lambda>u v. 0 \<le> u \<and> u < int W \<and> 0 \<le> v \<and> v < int H) u v;
                u' = boolean_index u in_bounds;
                v' = boolean_index v in_bounds;
                indices' = boolean_index indices in_bounds;
                labels_per_mask = boxes_cls res;
                mask_values = map (\<lambda>m. map2 (\<lambda>v u. m ! nat v ! nat u) v' u') masks_resized
            in (case torch_max_dim0 mask_values of
                  Inl e \<Rightarrow> Inl e
                | Inr (mask_scores, mask_ids) \<Rightarrow>
                   (let threshold = 1 / 2;
                        valid_mask = map (\<lambda>s. threshold < s) mask_scores;
                        valid_indices = boolean_index indices' valid_mask;
                        point_labels = replicate N (- 1)
                    in (case index_select labels_per_mask (boolean_index mask_ids valid_mask) of
                          Inl e \<Rightarrow> Inl e
                        | Inr vals \<Rightarrow>
                            Inr (index_put point_labels valid_indices
                                   (map (to_int fl) vals))))))))"

subsection \<open>The fate of one point\<close>

text \<open>
  What the array program does to a single point \<open>p\<close>, read off the code: its
  camera-frame position, its pixel, the scores \<open>masks_resized[:, v, u]\<close> at that pixel,
  the winner of the max-reduction, and the label that ends up in the output.
\<close>

definition in_image :: "nat \<times> nat \<Rightarrow> int \<Rightarrow> int \<Rightarrow> bool" where
  "in_image color_shape u v =
     (0 \<le> u \<and> u < int (snd color_shape) \<and> 0 \<le> v \<and> v < int (fst color_shape))"

definition survives :: "float_impl \<Rightarrow> matrix \<Rightarrow> matrix \<Rightarrow> nat \<times> nat \<Rightarrow> point \<Rightarrow> bool" where
  "survives fl intrinsic extrinsic color_shape p =
     (0 < depth_of (to_camera fl extrinsic p)
      \<and> in_image color_shape (pixel_u fl intrinsic (to_camera fl extrinsic p))
                               (pixel_v fl intrinsic (to_camera fl extrinsic p)))"

definition scores_at :: "float_impl \<Rightarrow> mask list \<Rightarrow> matrix \<Rightarrow> matrix \<Rightarrow> point \<Rightarrow> real list" where
  "scores_at fl masks_resized intrinsic extrinsic p =
     map (\<lambda>m. m ! nat (pixel_v fl intrinsic (to_camera fl extrinsic p))
                 ! nat (pixel_u fl intrinsic (to_camera fl extrinsic p))) masks_resized"

definition accepted ::
  "float_impl \<Rightarrow> mask list \<Rightarrow> matrix \<Rightarrow> matrix \<Rightarrow> nat \<times> nat \<Rightarrow> point \<Rightarrow> bool" where
  "accepted fl masks_resized intrinsic extrinsic color_shape p =
     (survives fl intrinsic extrinsic color_shape p
      \<and> 1 / 2 < fst (max_with_index (scores_at fl masks_resized intrinsic extrinsic p)))"

definition point_label ::
  "float_impl \<Rightarrow> mask list \<Rightarrow> real list \<Rightarrow> matrix \<Rightarrow> matrix \<Rightarrow> nat \<times> nat \<Rightarrow> point \<Rightarrow> int" where
  "point_label fl masks_resized cls intrinsic extrinsic color_shape p =
     (if accepted fl masks_resized intrinsic extrinsic color_shape p
      then to_int fl
             (cls ! snd (max_with_index (scores_at fl masks_resized intrinsic extrinsic p)))
      else - 1)"

text \<open>
  The inputs on which no library call raises: at least one mask, a class id for every
  mask, and no empty image or mask shape.
\<close>

definition has_detections :: "detections \<Rightarrow> nat \<times> nat \<Rightarrow> bool" where
  "has_detections res color_shape =
     (masks_data res \<noteq> [] \<and> length (boxes_cls res) = length (masks_data res)
      \<and> 0 < fst (masks_shape res) \<and> 0 < snd (masks_shape res)
      \<and> 0 < fst color_shape \<and> 0 < snd color_shape)"

section \<open>The controller: \<open>PipelineController\<close> (src/pipeline_controller.py)\<close>

text \<open>
  The controller's methods run one at a time on the UI thread; each is a function from
  the state before the call to the state after it. \<open>PipelineModel\<close> and \<open>PipelineView\<close>
  are not part of the controller: the fields it reads and writes are kept in two records.
  What the controller hands to other threads is kept as data: the closures posted to the
  UI thread, the depth queries handed to the renderer, and the calls made on the
  condition variable \<open>cv_capture\<close>.
\<close>

subsection \<open>\<open>threading.Condition\<close>\<close>

text \<open>
  \<open>lock_count\<close> counts how often the calling thread holds the (re-entrant) lock;
  \<open>notify\<close> and \<open>notify_all\<close> raise RuntimeError on a lock that is not held.
\<close>

datatype cv_event = Acquire | Release | Notify | NotifyAll

record condition =
  lock_count :: nat
  cv_log :: "cv_event list"

definition cv_enter :: "condition \<Rightarrow> condition" where
  "cv_enter c = c\<lparr>lock_count := Suc (lock_count c), cv_log := cv_log c @ [Acquire]\<rparr>"

definition cv_exit :: "condition \<Rightarrow> condition" where
  "cv_exit c = c\<lparr>lock_count := lock_count c - 1, cv_log := cv_log c @ [Release]\<rparr>"

definition cv_notify :: "condition \<Rightarrow> error + condition" where
  "cv_notify c =
     (if lock_count c = 0 then Inl RuntimeError else Inr (c\<lparr>cv_log := cv_log c @ [Notify]\<rparr>))"

definition cv_notify_all :: "condition \<Rightarrow> error + condition" where
  "cv_notify_all c =
     (if lock_count c = 0 then Inl RuntimeError
      else Inr (c\<lparr>cv_log := cv_log c @ [NotifyAll]\<rparr>))"

subsection \<open>State\<close>

datatype callback_result = IGNORED | HANDLED

datatype mouse_event_type = MOVE | BUTTON_DOWN | DRAG | BUTTON_UP | WHEEL

record mouse_event =
  ev_type :: mouse_event_type
  ev_x :: int
  ev_y :: int
  ctrl_down :: bool
  left_button_down :: bool

record frame_rect =
  frame_x :: int
  frame_y :: int
  frame_width :: int
  frame_height :: int

datatype mouse_handler = On_mouse_widget3d

text \<open>
  A numpy float as a value: a finite number, or one of the values that are not real
  numbers. No arithmetic on them is modelled.
\<close>

datatype np_float = Finite real | NegZero | PosInf | NegInf | NaN

text \<open>
  The view: \<open>toggle_record\<close> is \<open>None\<close> when the record control does not exist, else
  its \<open>is_on\<close>; \<open>camera_unproject\<close> is \<open>pcdview.scene.camera.unproject\<close> of the
  current camera; \<open>layouts\<close> counts the calls of \<open>window.set_needs_layout\<close>.
\<close>

record view =
  capturing :: bool
  edit_mode :: bool
  on_mouse :: "mouse_handler option"
  frame :: frame_rect
  toggle_record :: "bool option"
  mouse_coord :: string
  layouts :: nat
  view_flag_normals :: bool
  flag_gui_init :: bool
  camera_unproject :: "int \<Rightarrow> int \<Rightarrow> real \<Rightarrow> int \<Rightarrow> int \<Rightarrow> np_float \<times> np_float \<times> np_float"

record model =
  flag_capture :: bool
  flag_record :: bool
  flag_normals :: bool
  flag_exit :: bool
  flag_save_pcd :: bool
  flag_save_rgbd :: bool
  flag_model_init :: bool
  model_initializations :: nat
  cv_capture :: condition

typedecl frame_elements

text \<open>
  The closures given to \<open>post_to_main_thread\<close>, and the completion callbacks given to
  \<open>render_to_depth_image\<close> (a \<open>depth_callback\<close> closed over the click's \<open>x\<close>, \<open>y\<close>).
\<close>

datatype posted = ViewUpdate frame_elements | UpdateLabel string

datatype depth_request = DepthCallback int int

record controller =
  drawing_rectangle :: bool
  initial_point :: "(int \<times> int) option"
  rectangle_geometry :: "unit option"
  pipeline_view :: view
  pipeline_model :: model
  main_thread_queue :: "posted list"
  depth_requests :: "depth_request list"

record depth_image =
  depth_shape :: "nat \<times> nat"
  depth_data :: "real list list"

subsection \<open>Python and numpy primitives\<close>

text \<open>An integer index into an axis of size \<open>n\<close>: negative indices count from the end.\<close>

definition np_index :: "int \<Rightarrow> nat \<Rightarrow> error + nat" where
  "np_index i n =
     (if 0 \<le> i \<and> i < int n then Inr (nat i)
      else if - int n \<le> i \<and> i < 0 then Inr (nat (i + int n))
      else Inl IndexError)"

subsection \<open>Methods\<close>

definition init :: "view \<Rightarrow> model \<Rightarrow> controller" where
  "init v m =
     \<lparr>drawing_rectangle = False, initial_point = None, rectangle_geometry = None,
      pipeline_view = v, pipeline_model = m, main_thread_queue = [], depth_requests = []\<rparr>"

definition update_view :: "controller \<Rightarrow> frame_elements \<Rightarrow> controller" where
  "update_view s fe = s\<lparr>main_thread_queue := main_thread_queue s @ [ViewUpdate fe]\<rparr>"

definition on_toggle_record :: "controller \<Rightarrow> bool \<Rightarrow> controller" where
  "on_toggle_record s is_enabled =
     s\<lparr>pipeline_model := (pipeline_model s)\<lparr>flag_record := is_enabled\<rparr>\<rparr>"

definition on_toggle_capture :: "controller \<Rightarrow> bool \<Rightarrow> error + controller" where
  "on_toggle_capture s is_on =
     (let s1 = s\<lparr>pipeline_view := (pipeline_view s)\<lparr>capturing := is_on\<rparr>\<rparr>;
          s2 = (if \<not> capturing (pipeline_view s1)
                then s1\<lparr>pipeline_view := (pipeline_view s1)\<lparr>on_mouse := Some On_mouse_widget3d\<rparr>\<rparr>
                else s1\<lparr>pipeline_view := (pipeline_view s1)\<lparr>on_mouse := None\<rparr>\<rparr>);
          s3 = s2\<lparr>pipeline_model := (pipeline_model s2)\<lparr>flag_capture := is_on\<rparr>\<rparr>
      in if \<not> is_on then
           let s4 = on_toggle_record s3 False
           in if toggle_record (pipeline_view s4) \<noteq> None
              then Inr (s4\<lparr>pipeline_view := (pipeline_view s4)\<lparr>toggle_record := Some False\<rparr>\<rparr>)
              else Inr s4
         else
           (case cv_notify (cv_enter (cv_capture (pipeline_model s3))) of
              Inl e \<Rightarrow> Inl e
            | Inr c \<Rightarrow>
                Inr (s3\<lparr>pipeline_model := (pipeline_model s3)\<lparr>cv_capture := cv_exit c\<rparr>\<rparr>)))"

definition on_toggle_normals :: "controller \<Rightarrow> bool \<Rightarrow> controller" where
  "on_toggle_normals s is_enabled =
     s\<lparr>pipeline_model := (pipeline_model s)\<lparr>flag_normals := is_enabled\<rparr>,
       pipeline_view := (pipeline_view s)\<lparr>view_flag_normals := is_enabled,
                                          flag_gui_init := False\<rparr>\<rparr>"

definition on_window_close :: "controller \<Rightarrow> error + bool \<times> controller" where
  "on_window_close s =
     (let s1 = s\<lparr>pipeline_model := (pipeline_model s)\<lparr>flag_exit := True\<rparr>\<rparr>
      in case cv_notify_all (cv_enter (cv_capture (pipeline_model s1))) of
           Inl e \<Rightarrow> Inl e
         | Inr c \<Rightarrow>
             Inr (True, s1\<lparr>pipeline_model := (pipeline_model s1)\<lparr>cv_capture := cv_exit c\<rparr>\<rparr>))"

definition on_save_pcd :: "controller \<Rightarrow> controller" where
  "on_save_pcd s = s\<lparr>pipeline_model := (pipeline_model s)\<lparr>flag_save_pcd := True\<rparr>\<rparr>"

definition on_toggle_model_init :: "controller \<Rightarrow> bool \<Rightarrow> controller" where
  "on_toggle_model_init s is_enabled =
     s\<lparr>pipeline_model := (pipeline_model s)
          \<lparr>model_initializations := Suc (model_initializations (pipeline_model s)),
           flag_model_init := is_enabled\<rparr>\<rparr>"

definition on_save_rgbd :: "controller \<Rightarrow> controller" where
  "on_save_rgbd s = s\<lparr>pipeline_model := (pipeline_model s)\<lparr>flag_save_rgbd := True\<rparr>\<rparr>"

text \<open>
  \<open>depth_callback\<close>, the closure built by \<open>_on_mouse_widget3d\<close> for a click at \<open>(x, y)\<close>;
  the renderer calls it with the depth image. \<open>sample_depth\<close> is its first statement
  (the read of \<open>depth_array[y, x]\<close> or the far-plane value), \<open>update_label\<close> the closure
  it posts. The formatting \<open>"{:.3f}".format\<close> of a coordinate is the parameter
  \<open>format_3f\<close>.
\<close>

definition sample_depth :: "depth_image \<Rightarrow> int \<Rightarrow> int \<Rightarrow> error + real" where
  "sample_depth depth_array x y =
     (if y < int (fst (depth_shape depth_array)) \<and> x < int (snd (depth_shape depth_array))
      then (case np_index y (fst (depth_shape depth_array)) of
              Inl e \<Rightarrow> Inl e
            | Inr r \<Rightarrow>
                (case np_index x (snd (depth_shape depth_array)) of
                   Inl e \<Rightarrow> Inl e
                 | Inr c \<Rightarrow> Inr (depth_data depth_array ! r ! c)))
      else Inr 1)"

definition depth_callback ::
  "(np_float \<Rightarrow> string) \<Rightarrow> int \<Rightarrow> int \<Rightarrow> controller \<Rightarrow> depth_image \<Rightarrow> error + controller" where
  "depth_callback format_3f x y s depth_array =
     (case sample_depth depth_array x y of
        Inl e \<Rightarrow> Inl e
      | Inr depth \<Rightarrow>
          let text =
                (if depth = 1 then ''Mouse Coord: Clicked on nothing''
                 else (case camera_unproject (pipeline_view s) x y depth
                              (frame_width (frame (pipeline_view s)))
                              (frame_height (frame (pipeline_view s))) of
                         (w0, w1, w2) \<Rightarrow>
                           ''Mouse Coord: ('' @ format_3f w0 @ '', '' @ format_3f w1 @ '', ''
                           @ format_3f w2 @ '')''))
          in Inr (s\<lparr>main_thread_queue := main_thread_queue s @ [UpdateLabel text]\<rparr>))"

definition update_label :: "controller \<Rightarrow> string \<Rightarrow> controller" where
  "update_label s text =
     s\<lparr>pipeline_view := (pipeline_view s)\<lparr>mouse_coord := text,
                                          layouts := Suc (layouts (pipeline_view s))\<rparr>\<rparr>"

definition on_mouse_widget3d :: "controller \<Rightarrow> mouse_event \<Rightarrow> callback_result \<times> controller" where
  "on_mouse_widget3d s event =
     (if capturing (pipeline_view s) then (IGNORED, s)
      else if \<not> edit_mode (pipeline_view s) then (IGNORED, s)
      else if ev_type event = BUTTON_DOWN \<and> ctrl_down event \<and> left_button_down event then
        let x = ev_x event - frame_x (frame (pipeline_view s));
            y = ev_y event - frame_y (frame (pipeline_view s))
        in if 0 \<le> x \<and> x < frame_width (frame (pipeline_view s))
              \<and> 0 \<le> y \<and> y < frame_height (frame (pipeline_view s))
           then (HANDLED, s\<lparr>depth_requests := depth_requests s @ [DepthCallback x y]\<rparr>)
           else (HANDLED, s)
      else if ev_type event = DRAG \<and> drawing_rectangle s then (HANDLED, s)
      else if ev_type event = BUTTON_UP \<and> drawing_rectangle s
        then (HANDLED, s\<lparr>drawing_rectangle := False\<rparr>)
      else (IGNORED, s))"

text \<open>
  The states the controller can be in: the one \<open>__init__\<close> builds, around any view and
  model, and every state a method, a completed depth query or a posted label update
  leaves. The view and the model are also written from outside the controller (by the
  widgets, by the producer thread, by a posted \<open>pipeline_view.update\<close>): the last rule.
\<close>

inductive reachable :: "controller \<Rightarrow> bool" where
  r_init: "reachable (init v m)"
| r_update_view: "reachable s \<Longrightarrow> reachable (update_view s fe)"
| r_toggle_capture: "reachable s \<Longrightarrow> on_toggle_capture s is_on = Inr s' \<Longrightarrow> reachable s'"
| r_toggle_record: "reachable s \<Longrightarrow> reachable (on_toggle_record s is_enabled)"
| r_toggle_normals: "reachable s \<Longrightarrow> reachable (on_toggle_normals s is_enabled)"
| r_window_close: "reachable s \<Longrightarrow> on_window_close s = Inr (ok, s') \<Longrightarrow> reachable s'"
| r_save_pcd: "reachable s \<Longrightarrow> reachable (on_save_pcd s)"
| r_toggle_model_init: "reachable s \<Longrightarrow> reachable (on_toggle_model_init s is_enabled)"
| r_save_rgbd: "reachable s \<Longrightarrow> reachable (on_save_rgbd s)"
| r_mouse: "reachable s \<Longrightarrow> on_mouse_widget3d s event = (r, s') \<Longrightarrow> reachable s'"
| r_depth_callback:
    "reachable s \<Longrightarrow> depth_callback format_3f x y s img = Inr s' \<Longrightarrow> reachable s'"
| r_update_label: "reachable s \<Longrightarrow> reachable (update_label s text)"
| r_outside: "reachable s \<Longrightarrow> reachable (s\<lparr>pipeline_view := v, pipeline_model := m\<rparr>)"

section \<open>Example inputs\<close>

subsection \<open>An arithmetic without rounding\<close>

text \<open>
  One float implementation, used to run the model on examples: every operation
  returns the exact result. The bilinear resize reads the source at
  \<open>max 0 ((dst + 1/2) * in / out - 1/2)\<close> along each axis and blends the two
  neighbouring source pixels. The example inputs below are short binary fractions, on
  which no operation needs to round.
\<close>

definition source_index :: "nat \<Rightarrow> nat \<Rightarrow> nat \<Rightarrow> real" where
  "source_index in_size out_size dst =
     max 0 ((real dst + 1 / 2) * (real in_size / real out_size) - 1 / 2)"

definition interp_axis :: "nat \<Rightarrow> nat \<Rightarrow> nat \<Rightarrow> nat \<times> nat \<times> real" where
  "interp_axis in_size out_size dst =
     (let s = source_index in_size out_size dst;
          i0 = min (nat \<lfloor>s\<rfloor>) (in_size - 1);
          i1 = (if in_size - 1 < i0 + 1 then i0 else i0 + 1);
          l1 = min (max (s - real i0) 0) 1
      in (i0, i1, l1))"

definition bilinear_at :: "mask \<Rightarrow> nat \<times> nat \<Rightarrow> nat \<times> nat \<Rightarrow> nat \<Rightarrow> nat \<Rightarrow> real" where
  "bilinear_at m in_shape out_shape v u =
     (case interp_axis (fst in_shape) (fst out_shape) v of (y0, y1, ly) \<Rightarrow>
       (case interp_axis (snd in_shape) (snd out_shape) u of (x0, x1, lx) \<Rightarrow>
          (1 - ly) * ((1 - lx) * (m ! y0 ! x0) + lx * (m ! y0 ! x1))
          + ly * ((1 - lx) * (m ! y1 ! x0) + lx * (m ! y1 ! x1))))"

definition exact_arithmetic :: float_impl where
  "exact_arithmetic =
     \<lparr>matmul_dot = (\<lambda>row col. sum_list (map2 (*) row col)),
      fmul = (*), fdiv = (/), fadd = (+),
      upsample_bilinear = bilinear_at,
      int32_overflow = (\<lambda>x. if x < 0 then - (2 ^ 31) else 2 ^ 31 - 1),
      int64_overflow = (\<lambda>x. if x < 0 then - (2 ^ 63) else 2 ^ 63 - 1)\<rparr>"

subsection \<open>A camera, detections and points\<close>

text \<open>
  A camera with \<open>fx = fy = 2\<close>, \<open>cx = 2\<close>, \<open>cy = 1\<close> at the origin, an image of 2 rows
  and 4 columns, and two detections given as \<open>1 \<times> 2\<close> masks. Resized to the image,
  mask 0 reads \<open>0.75, 0.625, 0.375, 0.25\<close> along every row and mask 1 is \<open>0.5\<close>
  everywhere.
\<close>

definition example_intrinsic :: matrix where
  "example_intrinsic = [[2, 0, 2], [0, 2, 1], [0, 0, 1]]"

definition example_extrinsic :: matrix where
  "example_extrinsic = [[1, 0, 0, 0], [0, 1, 0, 0], [0, 0, 1, 0], [0, 0, 0, 1]]"

definition example_detections :: detections where
  "example_detections =
     \<lparr>masks_shape = (1, 2), masks_data = [[[3 / 4, 1 / 4]], [[1 / 2, 1 / 2]]],
      boxes_cls = [3, 7]\<rparr>"

text \<open>
  Three detections: at the left edge of the image mask 0 scores \<open>0.25\<close> and masks 1
  and 2 both score \<open>0.75\<close>.
\<close>

definition tied_detections :: detections where
  "tied_detections =
     \<lparr>masks_shape = (1, 2), masks_data = [[[1 / 4, 1 / 4]], [[3 / 4, 1 / 4]],
                                          [[3 / 4, 3 / 4]]],
      boxes_cls = [3, 7, 5]\<rparr>"

text \<open>Two detections that both score \<open>0.25\<close> everywhere.\<close>

definition low_tied_detections :: detections where
  "low_tied_detections =
     \<lparr>masks_shape = (1, 2), masks_data = [[[1 / 4, 1 / 4]], [[1 / 4, 1 / 4]]],
      boxes_cls = [3, 7]\<rparr>"

text \<open>A detector result with no instance: a mask tensor of shape \<open>(0, 1, 2)\<close>.\<close>

definition no_detections :: detections where
  "no_detections = \<lparr>masks_shape = (1, 2), masks_data = [], boxes_cls = []\<rparr>"

definition example_points :: "point list" where
  "example_points = [(0, 0, 2), (0, 0, - 1), (5, 0, 1), (- 3 / 4, 0, 1), (- 1, 0, 1)]"

subsection \<open>A formatter, a view, a click and two depth images\<close>

text \<open>
  \<open>"{:.3f}".format\<close> as Python defines it: three decimals of the exact value, correctly
  rounded, a tie to the even digit; the sign of a negative zero is kept.
\<close>

definition digit_char :: "nat \<Rightarrow> char" where
  "digit_char d = ''0123456789'' ! d"

function str_nat :: "nat \<Rightarrow> string" where
  "str_nat n = (if n < 10 then [digit_char n] else str_nat (n div 10) @ [digit_char (n mod 10)])"
  by pat_completeness auto
termination
  by (relation "measure (\<lambda>n. n)") auto

declare str_nat.simps [simp del]

definition format_finite :: "real \<Rightarrow> string" where
  "format_finite x =
     (let n = nat (torch_round (\<bar>x\<bar> * 1000))
      in (if x < 0 then ''-'' else []) @ str_nat (n div 1000) @ ''.''
         @ [digit_char (n div 100 mod 10), digit_char (n div 10 mod 10), digit_char (n mod 10)])"

fun python_format_3f :: "np_float \<Rightarrow> string" where
  "python_format_3f (Finite x) = format_finite x"
| "python_format_3f NegZero = ''-0.000''"
| "python_format_3f PosInf = ''inf''"
| "python_format_3f NegInf = ''-inf''"
| "python_format_3f NaN = ''nan''"

text \<open>
  A view in edit mode that is not capturing, with a \<open>4 \<times> 3\<close> viewport at \<open>(10, 20)\<close>, a
  record control that is on, and a camera whose \<open>unproject\<close> returns \<open>(x, y, depth)\<close>; a
  model that is recording; a Ctrl + left click at window position \<open>(12, 21)\<close>; a depth
  image with one hit, at row 1, column 2.
\<close>

definition example_view :: view where
  "example_view =
     \<lparr>capturing = False, edit_mode = True, on_mouse = Some On_mouse_widget3d,
      frame = \<lparr>frame_x = 10, frame_y = 20, frame_width = 4, frame_height = 3\<rparr>,
      toggle_record = Some True, mouse_coord = ''mouse coord: '', layouts = 0,
      view_flag_normals = False, flag_gui_init = False,
      camera_unproject =
        (\<lambda>x y depth w h. (Finite (of_int x), Finite (of_int y), Finite depth))\<rparr>"

definition example_model :: model where
  "example_model =
     \<lparr>flag_capture = False, flag_record = True, flag_normals = False, flag_exit = False,
      flag_save_pcd = False, flag_save_rgbd = False, flag_model_init = False,
      model_initializations = 0, cv_capture = \<lparr>lock_count = 0, cv_log = []\<rparr>\<rparr>"

definition example_click :: mouse_event where
  "example_click =
     \<lparr>ev_type = BUTTON_DOWN, ev_x = 12, ev_y = 21, ctrl_down = True, left_button_down = True\<rparr>"

definition example_drag :: mouse_event where
  "example_drag =
     \<lparr>ev_type = DRAG, ev_x = 12, ev_y = 21, ctrl_down = True, left_button_down = True\<rparr>"

definition example_depth :: depth_image where
  "example_depth =
     \<lparr>depth_shape = (3, 4),
      depth_data = [[1, 1, 1, 1], [1, 1, 1 / 4, 1], [1, 1, 1, 1]]\<rparr>"

text \<open>A depth image of a single pixel: the click at column 2, row 1 falls outside it.\<close>

definition small_depth :: depth_image where
  "small_depth = \<lparr>depth_shape = (1, 1), depth_data = [[1 / 2]]\<rparr>"

section \<open>Properties of the label fusion\<close>

subsection \<open>The array operations\<close>

lemma boolean_index_map: "boolean_index (map f xs) (map g xs) = map f (filter g xs)"
  by (induction xs) (simp_all add: boolean_index_def)

lemma boolean_index_self: "boolean_index xs (map g xs) = filter g xs"
  using boolean_index_map [of "\<lambda>x. x" xs g] by simp

lemma nonzero_map: "nonzero (map g xs) = filter (\<lambda>i. g (xs ! i)) [0..<length xs]"
  unfolding nonzero_def by (rule filter_cong) simp_all

lemma filter_by_index: "filter g xs = map (\<lambda>i. xs ! i) (filter (\<lambda>i. g (xs ! i)) [0..<length xs])"
proof -
  have "filter g xs = filter g (map (\<lambda>i. xs ! i) [0..<length xs])"
    by (simp add: map_nth)
  also have "\<dots> = map (\<lambda>i. xs ! i) (filter (\<lambda>i. g (xs ! i)) [0..<length xs])"
    by (simp add: filter_map comp_def)
  finally show ?thesis .
qed

lemma map2_same: "map2 f (map g xs) (map h xs) = map (\<lambda>x. f (g x) (h x)) xs"
  by (induction xs) simp_all

lemma index_put_nth:
  "j < length t \<Longrightarrow>
   index_put t ids (map g ids) ! j = (if j \<in> set ids then g j else t ! j)"
proof (induction ids arbitrary: t)
  case Nil
  then show ?case by (simp add: index_put_def)
next
  case (Cons i ids)
  have step: "index_put t (i # ids) (map g (i # ids)) = index_put (t[i := g i]) ids (map g ids)"
    by (simp add: index_put_def)
  from Cons.prems have len: "j < length (t[i := g i])" by simp
  show ?case
    unfolding step Cons.IH [OF len]
    using Cons.prems by (cases "i = j") (auto simp: nth_list_update)
qed

lemma index_put_length: "length (index_put t ids vals) = length t"
proof -
  have "length (fold (\<lambda>(i, x) acc. acc[i := x]) ps t) = length t" for ps :: "(nat \<times> 'a) list"
    by (induction ps arbitrary: t) (simp_all add: split_def)
  then show ?thesis by (simp add: index_put_def)
qed

lemma index_put_eq:
  "index_put t ids (map g ids) = map (\<lambda>j. if j \<in> set ids then g j else t ! j) [0..<length t]"
  by (rule nth_equalityI) (simp_all add: index_put_length index_put_nth)

lemma max_from_inv:
  assumes "length pre = i" "bi < i" "pre ! bi = best" "\<forall>x\<in>set pre. x \<le> best"
    "\<forall>j<bi. pre ! j < best"
  shows "case max_from best bi i ys of (s, k) \<Rightarrow>
           k < length (pre @ ys) \<and> (pre @ ys) ! k = s \<and> (\<forall>x\<in>set (pre @ ys). x \<le> s)
           \<and> (\<forall>j<k. (pre @ ys) ! j < s)"
  using assms
proof (induction ys arbitrary: best bi i pre)
  case Nil
  then show ?case by simp
next
  case (Cons y ys)
  show ?case
  proof (cases "best < y")
    case True
    have "case max_from y i (Suc i) ys of (s, k) \<Rightarrow>
           k < length ((pre @ [y]) @ ys) \<and> ((pre @ [y]) @ ys) ! k = s
           \<and> (\<forall>x\<in>set ((pre @ [y]) @ ys). x \<le> s)
           \<and> (\<forall>j<k. ((pre @ [y]) @ ys) ! j < s)"
    proof (rule Cons.IH)
      show "length (pre @ [y]) = Suc i" using Cons.prems by simp
      show "i < Suc i" by simp
      show "(pre @ [y]) ! i = y" using Cons.prems by (simp add: nth_append)
      show "\<forall>x\<in>set (pre @ [y]). x \<le> y" using Cons.prems True by fastforce
      show "\<forall>j<i. (pre @ [y]) ! j < y"
      proof (intro allI impI)
        fix j assume "j < i"
        then have "pre ! j \<in> set pre" using Cons.prems by simp
        then have "pre ! j \<le> best" using Cons.prems by blast
        with True have "pre ! j < y" by linarith
        then show "(pre @ [y]) ! j < y" using \<open>j < i\<close> Cons.prems(1) by (simp add: nth_append)
      qed
    qed
    then show ?thesis using True by simp
  next
    case False
    have "case max_from best bi (Suc i) ys of (s, k) \<Rightarrow>
           k < length ((pre @ [y]) @ ys) \<and> ((pre @ [y]) @ ys) ! k = s
           \<and> (\<forall>x\<in>set ((pre @ [y]) @ ys). x \<le> s)
           \<and> (\<forall>j<k. ((pre @ [y]) @ ys) ! j < s)"
    proof (rule Cons.IH)
      show "length (pre @ [y]) = Suc i" using Cons.prems by simp
      show "bi < Suc i" using Cons.prems by simp
      show "(pre @ [y]) ! bi = best" using Cons.prems by (simp add: nth_append)
      show "\<forall>x\<in>set (pre @ [y]). x \<le> best" using Cons.prems False by auto
      show "\<forall>j<bi. (pre @ [y]) ! j < best" using Cons.prems by (simp add: nth_append)
    qed
    then show ?thesis using False by simp
  qed
qed

lemma max_with_index_props:
  assumes "col \<noteq> []"
  shows "snd (max_with_index col) < length col"
    and "col ! snd (max_with_index col) = fst (max_with_index col)"
    and "\<forall>x\<in>set col. x \<le> fst (max_with_index col)"
    and "\<forall>j < snd (max_with_index col). col ! j < fst (max_with_index col)"
proof -
  obtain x xs where col: "col = x # xs" using assms by (cases col) auto
  have "case max_from x 0 1 xs of (s, k) \<Rightarrow>
           k < length ([x] @ xs) \<and> ([x] @ xs) ! k = s \<and> (\<forall>x\<in>set ([x] @ xs). x \<le> s)
           \<and> (\<forall>j<k. ([x] @ xs) ! j < s)"
    by (rule max_from_inv) simp_all
  then have *: "case max_with_index col of (s, k) \<Rightarrow>
           k < length col \<and> col ! k = s \<and> (\<forall>x\<in>set col. x \<le> s) \<and> (\<forall>j<k. col ! j < s)"
    by (simp add: max_with_index_def col)
  show "snd (max_with_index col) < length col"
    and "col ! snd (max_with_index col) = fst (max_with_index col)"
    and "\<forall>x\<in>set col. x \<le> fst (max_with_index col)"
    and "\<forall>j < snd (max_with_index col). col ! j < fst (max_with_index col)"
    using * by (simp_all add: split_beta)
qed


lemma segment_pcd_from_2d_pointwise:
  assumes interp: "interpolate_bilinear fl (masks_shape res) (masks_data res) (H, W) = Inr mr"
    and nonempty: "mr \<noteq> []"
  shows "segment_pcd_from_2d fl res Ki E pts (H, W) =
      (if list_all (\<lambda>p. snd (max_with_index (scores_at fl mr Ki E p)) < length (boxes_cls res))
             (filter (accepted fl mr Ki E (H, W)) pts)
       then Inr (map (point_label fl mr (boxes_cls res) Ki E (H, W)) pts)
       else Inl IndexError)"
proof -
  define N where "N = length pts"
  define pcs where "pcs = map (to_camera fl E) pts"
  define VD where "VD = (\<lambda>i. 0 < depth_of (pcs ! i))"
  define U where "U = (\<lambda>i. pixel_u fl Ki (pcs ! i))"
  define V where "V = (\<lambda>i. pixel_v fl Ki (pcs ! i))"
  define IB where "IB = (\<lambda>i. 0 \<le> U i \<and> U i < int W \<and> 0 \<le> V i \<and> V i < int H)"
  define col where "col = (\<lambda>i. map (\<lambda>m. m ! nat (V i) ! nat (U i)) mr)"
  define VM where "VM = (\<lambda>i. 1 / 2 < fst (max_with_index (col i)))"
  define A where "A = (\<lambda>i. snd (max_with_index (col i)))"
  define idx where "idx = filter VD [0..<N]"
  define idx' where "idx' = filter IB idx"
  define vidx where "vidx = filter VM idx'"
  have len_pcs: "length pcs = N" by (simp add: pcs_def N_def)
  have valid_depth: "nonzero (map (\<lambda>pc. 0 < depth_of pc) pcs) = idx"
    by (simp add: nonzero_map idx_def VD_def len_pcs)
  have points_cam: "boolean_index pcs (map (\<lambda>pc. 0 < depth_of pc) pcs) = map (\<lambda>i. pcs ! i) idx"
    unfolding boolean_index_self
    by (subst filter_by_index) (simp add: idx_def VD_def len_pcs)
  have u: "map (pixel_u fl Ki) (map (\<lambda>i. pcs ! i) idx) = map U idx"
    by (simp add: U_def)
  have v: "map (pixel_v fl Ki) (map (\<lambda>i. pcs ! i) idx) = map V idx"
    by (simp add: V_def)
  have in_bounds:
    "map2 (\<lambda>u v. 0 \<le> u \<and> u < int W \<and> 0 \<le> v \<and> v < int H) (map U idx) (map V idx) = map IB idx"
    unfolding map2_same by (simp add: IB_def)
  have u': "boolean_index (map U idx) (map IB idx) = map U idx'"
    by (simp add: boolean_index_map idx'_def)
  have v': "boolean_index (map V idx) (map IB idx) = map V idx'"
    by (simp add: boolean_index_map idx'_def)
  have indices': "boolean_index idx (map IB idx) = idx'"
    by (simp add: boolean_index_self idx'_def)
  have mask_values:
    "map (\<lambda>m. map2 (\<lambda>v u. m ! nat v ! nat u) (map V idx') (map U idx')) mr
       = map (\<lambda>m. map (\<lambda>i. m ! nat (V i) ! nat (U i)) idx') mr"
    unfolding map2_same by simp
  have cols: "map (\<lambda>j. map (\<lambda>r. r ! j) (map (\<lambda>m. map (\<lambda>i. m ! nat (V i) ! nat (U i)) idx') mr))
                  [0..<length idx'] = map col idx'"
    by (rule nth_equalityI) (simp_all add: col_def comp_def)
  have hd_len: "length (hd (map (\<lambda>m. map (\<lambda>i. m ! nat (V i) ! nat (U i)) idx') mr)) = length idx'"
    using nonempty by (cases mr) simp_all
  have tmax: "torch_max_dim0 (map (\<lambda>m. map (\<lambda>i. m ! nat (V i) ! nat (U i)) idx') mr)
      = Inr (map (\<lambda>i. fst (max_with_index (col i))) idx', map A idx')"
    unfolding torch_max_dim0_def hd_len cols using nonempty by (simp add: A_def comp_def)
  have valid_mask: "map (\<lambda>s. 1 / 2 < s) (map (\<lambda>i. fst (max_with_index (col i))) idx') = map VM idx'"
    by (simp add: VM_def)
  have valid_indices: "boolean_index idx' (map VM idx') = vidx"
    by (simp add: boolean_index_self vidx_def)
  have ids: "boolean_index (map A idx') (map VM idx') = map A vidx"
    by (simp add: boolean_index_map vidx_def)
  have sel: "index_select cls (map A vidx) =
      (if list_all (\<lambda>i. A i < length cls) vidx then Inr (map (\<lambda>i. cls ! A i) vidx)
       else Inl IndexError)" for cls :: "real list"
    by (simp add: index_select_def list_all_iff comp_def)
  have put: "index_put (replicate N (- 1)) vidx (map (to_int fl) (map (\<lambda>i. cls ! A i) vidx))
      = map (\<lambda>j. if j \<in> set vidx then to_int fl (cls ! A j) else - 1) [0..<N]" for cls :: "real list"
  proof -
    have "index_put (replicate N (- 1)) vidx (map (\<lambda>i. to_int fl (cls ! A i)) vidx)
      = map (\<lambda>j. if j \<in> set vidx then to_int fl (cls ! A j) else replicate N (- 1) ! j)
          [0..<length (replicate N (- 1 :: int))]"
      by (rule index_put_eq)
    then show ?thesis by (simp add: comp_def cong: map_cong)
  qed
  have mem: "j \<in> set vidx \<longleftrightarrow> j < N \<and> VD j \<and> IB j \<and> VM j" for j
    by (auto simp: vidx_def idx'_def idx_def)
  have pcs_nth: "pcs ! j = to_camera fl E (pts ! j)" if "j < N" for j
    using that by (simp add: pcs_def N_def)
  have col_eq: "col j = scores_at fl mr Ki E (pts ! j)" if "j < N" for j
    using that by (simp add: col_def scores_at_def U_def V_def pcs_nth)
  have acc: "accepted fl mr Ki E (H, W) (pts ! j) \<longleftrightarrow> VD j \<and> IB j \<and> VM j" if "j < N" for j
    using that
    by (simp add: accepted_def survives_def in_image_def VD_def IB_def VM_def U_def V_def
        pcs_nth col_eq [symmetric] col_def)
  have labels: "map (\<lambda>j. if j \<in> set vidx then to_int fl (cls ! A j) else - 1) [0..<N]
      = map (point_label fl mr cls Ki E (H, W)) pts" for cls :: "real list"
  proof (rule nth_equalityI)
    show "length (map (\<lambda>j. if j \<in> set vidx then to_int fl (cls ! A j) else - 1) [0..<N])
        = length (map (point_label fl mr cls Ki E (H, W)) pts)"
      by (simp add: N_def)
  next
    fix j assume "j < length (map (\<lambda>j. if j \<in> set vidx then to_int fl (cls ! A j) else - 1) [0..<N])"
    then have j: "j < N" by simp
    then show "map (\<lambda>j. if j \<in> set vidx then to_int fl (cls ! A j) else - 1) [0..<N] ! j
        = map (point_label fl mr cls Ki E (H, W)) pts ! j"
      using acc [OF j] mem [of j] col_eq [OF j]
      by (simp add: point_label_def A_def N_def)
  qed
  have all_iff: "list_all (\<lambda>i. A i < n) vidx
      \<longleftrightarrow> list_all (\<lambda>p. snd (max_with_index (scores_at fl mr Ki E p)) < n)
            (filter (accepted fl mr Ki E (H, W)) pts)" for n
  proof -
    have "list_all (\<lambda>i. A i < n) vidx \<longleftrightarrow> (\<forall>j<N. accepted fl mr Ki E (H, W) (pts ! j) \<longrightarrow> A j < n)"
      using acc mem by (auto simp: list_all_iff)
    also have "\<dots> \<longleftrightarrow> (\<forall>j<N. accepted fl mr Ki E (H, W) (pts ! j)
                   \<longrightarrow> snd (max_with_index (scores_at fl mr Ki E (pts ! j))) < n)"
      using col_eq by (simp add: A_def)
    also have "\<dots> \<longleftrightarrow> (\<forall>p\<in>set pts. accepted fl mr Ki E (H, W) p
                   \<longrightarrow> snd (max_with_index (scores_at fl mr Ki E p)) < n)"
      by (simp add: all_set_conv_all_nth N_def)
    also have "\<dots> \<longleftrightarrow> list_all (\<lambda>p. snd (max_with_index (scores_at fl mr Ki E p)) < n)
            (filter (accepted fl mr Ki E (H, W)) pts)"
      unfolding list_all_iff by auto
    finally show ?thesis .
  qed
  have "segment_pcd_from_2d fl res Ki E pts (H, W) =
      (case index_select (boxes_cls res) (map A vidx) of
         Inl e \<Rightarrow> Inl e
       | Inr vals \<Rightarrow> Inr (index_put (replicate N (- 1)) vidx (map (to_int fl) vals)))"
    unfolding segment_pcd_from_2d_def prod.case interp sum.case Let_def
      pcs_def [symmetric] N_def [symmetric]
      valid_depth points_cam u v in_bounds u' v' indices' mask_values tmax
      valid_mask valid_indices ids ..
  also have "\<dots> =
      (if list_all (\<lambda>p. snd (max_with_index (scores_at fl mr Ki E p)) < length (boxes_cls res))
             (filter (accepted fl mr Ki E (H, W)) pts)
       then Inr (map (point_label fl mr (boxes_cls res) Ki E (H, W)) pts)
       else Inl IndexError)"
    unfolding sel by (simp del: map_map add: put labels all_iff)
  finally show ?thesis .
qed

subsection \<open>What the function returns\<close>

lemma interpolate_bilinear_length:
  "interpolate_bilinear fl in_shape ms out_shape = Inr mr \<Longrightarrow> length mr = length ms"
  by (auto simp: interpolate_bilinear_def split: if_splits)

lemma interpolate_bilinear_ok:
  "0 < fst in_shape \<Longrightarrow> 0 < snd in_shape \<Longrightarrow> 0 < fst out_shape \<Longrightarrow> 0 < snd out_shape \<Longrightarrow>
   \<exists>mr. interpolate_bilinear fl in_shape ms out_shape = Inr mr"
  by (simp add: interpolate_bilinear_def)

lemma segment_pcd_from_2d_no_masks:
  assumes "masks_data res = []"
  shows "segment_pcd_from_2d fl res Ki E pts (H, W) =
     Inl (if fst (masks_shape res) = 0 \<or> snd (masks_shape res) = 0 \<or> H = 0 \<or> W = 0
          then RuntimeError else IndexError)"
  using assms
  by (simp add: segment_pcd_from_2d_def interpolate_bilinear_def torch_max_dim0_def Let_def)

lemma segment_pcd_from_2d_result:
  assumes "segment_pcd_from_2d fl res Ki E pts (H, W) = Inr labels"
  shows "\<exists>mr. interpolate_bilinear fl (masks_shape res) (masks_data res) (H, W) = Inr mr
            \<and> mr \<noteq> [] \<and> labels = map (point_label fl mr (boxes_cls res) Ki E (H, W)) pts"
proof (cases "interpolate_bilinear fl (masks_shape res) (masks_data res) (H, W)")
  case (Inl e)
  then have "segment_pcd_from_2d fl res Ki E pts (H, W) = Inl e"
    by (simp add: segment_pcd_from_2d_def)
  with assms show ?thesis by simp
next
  case (Inr mr)
  show ?thesis
  proof (cases "masks_data res = []")
    case True
    from segment_pcd_from_2d_no_masks [OF True] assms show ?thesis by simp
  next
    case False
    with Inr have ne: "mr \<noteq> []" using interpolate_bilinear_length [OF Inr] by auto
    from segment_pcd_from_2d_pointwise [OF Inr ne, of Ki E pts] assms
    have "labels = map (point_label fl mr (boxes_cls res) Ki E (H, W)) pts"
      by (simp split: if_splits)
    with Inr ne show ?thesis by simp
  qed
qed

lemma segment_pcd_from_2d_total:
  assumes "has_detections res (H, W)"
  shows "\<exists>mr. interpolate_bilinear fl (masks_shape res) (masks_data res) (H, W) = Inr mr
            \<and> mr \<noteq> []
            \<and> segment_pcd_from_2d fl res Ki E pts (H, W)
                = Inr (map (point_label fl mr (boxes_cls res) Ki E (H, W)) pts)"
proof -
  from assms obtain mr
    where mr: "interpolate_bilinear fl (masks_shape res) (masks_data res) (H, W) = Inr mr"
    using interpolate_bilinear_ok [of "masks_shape res" "(H, W)" fl "masks_data res"]
    by (auto simp: has_detections_def)
  have len: "length mr = length (boxes_cls res)"
    using interpolate_bilinear_length [OF mr] assms by (simp add: has_detections_def)
  have ne: "mr \<noteq> []"
    using interpolate_bilinear_length [OF mr] assms by (auto simp: has_detections_def)
  have "snd (max_with_index (scores_at fl mr Ki E p)) < length (boxes_cls res)" for p
  proof -
    have "scores_at fl mr Ki E p \<noteq> []" using ne by (simp add: scores_at_def)
    from max_with_index_props(1) [OF this] show ?thesis
      by (simp add: scores_at_def len)
  qed
  then have "list_all (\<lambda>p. snd (max_with_index (scores_at fl mr Ki E p)) < length (boxes_cls res))
               (filter (accepted fl mr Ki E (H, W)) pts)"
    by (simp add: list_all_iff)
  with segment_pcd_from_2d_pointwise [OF mr ne, of Ki E pts] mr ne show ?thesis by simp
qed

lemma torch_round_nearest: "\<bar>x - of_int (torch_round x)\<bar> \<le> \<bar>x - of_int n\<bar>"
proof -
  have f: "of_int \<lfloor>x\<rfloor> \<le> x" "x < of_int \<lfloor>x\<rfloor> + 1" by linarith+
  consider "n \<le> \<lfloor>x\<rfloor>" | "\<lfloor>x\<rfloor> + 1 \<le> n" by linarith
  then show ?thesis
  proof cases
    case 1
    then have "(of_int n :: real) \<le> of_int \<lfloor>x\<rfloor>" by simp
    with f show ?thesis by (auto simp: torch_round_def Let_def)
  next
    case 2
    then have "(of_int \<lfloor>x\<rfloor> :: real) + 1 \<le> of_int n" by (metis of_int_1 of_int_add of_int_le_iff)
    with f show ?thesis by (auto simp: torch_round_def Let_def)
  qed
qed

lemma torch_round_half: "\<bar>x - of_int (torch_round x)\<bar> \<le> 1 / 2"
proof -
  have f: "of_int \<lfloor>x\<rfloor> \<le> x" "x < of_int \<lfloor>x\<rfloor> + 1" by linarith+
  then show ?thesis by (auto simp: torch_round_def Let_def)
qed

lemma max_with_index_Max:
  assumes "col \<noteq> []"
  shows "fst (max_with_index col) = Max (set col)"
proof -
  have "col ! snd (max_with_index col) \<in> set col"
    using max_with_index_props(1) [OF assms] by simp
  then have "fst (max_with_index col) \<in> set col"
    using max_with_index_props(2) [OF assms] by simp
  moreover have "\<forall>x\<in>set col. x \<le> fst (max_with_index col)"
    using max_with_index_props(3) [OF assms] .
  ultimately show ?thesis by (intro Max_eqI [symmetric]) auto
qed

lemma point_label_filtered:
  "\<not> accepted fl mr Ki E shape p \<Longrightarrow> point_label fl mr cls Ki E shape p = - 1"
  by (simp add: point_label_def)

lemma example_resized:
  "interpolate_bilinear exact_arithmetic (masks_shape example_detections) (masks_data example_detections) (2, 4)
     = Inr [[[3 / 4, 5 / 8, 3 / 8, 1 / 4], [3 / 4, 5 / 8, 3 / 8, 1 / 4]],
            [[1 / 2, 1 / 2, 1 / 2, 1 / 2], [1 / 2, 1 / 2, 1 / 2, 1 / 2]]]"
  by code_simp

lemma example_has_detections: "has_detections example_detections (2, 4)"
  by (simp add: has_detections_def example_detections_def)

lemma tied_resized:
  "interpolate_bilinear exact_arithmetic (masks_shape tied_detections) (masks_data tied_detections) (2, 4)
     = Inr [[[1 / 4, 1 / 4, 1 / 4, 1 / 4], [1 / 4, 1 / 4, 1 / 4, 1 / 4]],
            [[3 / 4, 5 / 8, 3 / 8, 1 / 4], [3 / 4, 5 / 8, 3 / 8, 1 / 4]],
            [[3 / 4, 3 / 4, 3 / 4, 3 / 4], [3 / 4, 3 / 4, 3 / 4, 3 / 4]]]"
  by code_simp

subsection \<open>The claims about the label fusion\<close>

text \<open>
  Claim C1: for every point cloud of \<open>N\<close> points and every detection set the function
  returns \<open>N\<close> labels, in point order, with \<open>-1\<close> for every filtered point. The code
  does not do so for a detection set without masks: \<open>torch.max\<close> over the empty mask
  dimension raises before the label array is even created. Here the five example
  points get no labels at all. (With at least one mask the function does return one
  label per point, in order: \<open>segment_pcd_from_2d_total\<close>.)
\<close>

theorem segment_no_detections_raises:
  "segment_pcd_from_2d fl no_detections example_intrinsic example_extrinsic example_points (2, 4)
     = Inl IndexError"
  by code_simp

text \<open>
  Claim C2: with \<open>K = 0\<close> masks the function returns normally and every label is
  \<open>-1\<close>. The code raises instead, on every input without masks, whatever the points
  are: \<open>interpolate\<close> accepts the empty batch (unless a shape is empty, which it
  refuses), and the reduction \<open>torch.max(mask_values, dim=0)\<close> over zero masks raises.
\<close>

theorem segment_without_masks_raises:
  assumes "masks_data res = []"
  shows "segment_pcd_from_2d fl res Ki E pts (H, W) =
     Inl (if fst (masks_shape res) = 0 \<or> snd (masks_shape res) = 0 \<or> H = 0 \<or> W = 0
          then RuntimeError else IndexError)"
  using assms by (rule segment_pcd_from_2d_no_masks)

theorem segment_without_masks_raises_witness:
  "masks_data \<lparr>masks_shape = (3, 3), masks_data = [], boxes_cls = []\<rparr> = []
   \<and> segment_pcd_from_2d exact_arithmetic \<lparr>masks_shape = (3, 3), masks_data = [], boxes_cls = []\<rparr>
        example_intrinsic example_extrinsic [(0, 0, 2)] (2, 4) = Inl IndexError"
proof -
  have h: "masks_data \<lparr>masks_shape = (3, 3), masks_data = [], boxes_cls = []\<rparr> = []"
    by simp
  show ?thesis
    using h segment_without_masks_raises [OF h, of exact_arithmetic example_intrinsic example_extrinsic
        "[(0, 0, 2)]" 2 4]
    by simp
qed

text \<open>
  Claim C3: a point that survives the depth and the bounds test is labelled only when the
  maximum of the mask scores at its pixel is strictly above \<open>0.5\<close>. Whenever the
  function returns, \<open>score\<close> (the first component of the max-reduction) is the maximum
  of the scores; a maximum of exactly \<open>0.5\<close>, or below, leaves the label \<open>-1\<close>, and a
  maximum above \<open>0.5\<close> gives the class id of the winning mask \<open>k\<close>, converted to
  \<open>int32\<close>. The scores are the values of the resized masks as the float resize
  returned them, for every float implementation. The function does return whenever
  there is at least one mask.
\<close>

theorem segment_threshold_strict:
  assumes i: "i < length pts"
    and surv: "survives fl Ki E (H, W) (pts ! i)"
    and mr: "interpolate_bilinear fl (masks_shape res) (masks_data res) (H, W) = Inr masks_resized"
    and best: "max_with_index (scores_at fl masks_resized Ki E (pts ! i)) = (score, k)"
  shows "(has_detections res (H, W) \<longrightarrow>
            (\<exists>labels. segment_pcd_from_2d fl res Ki E pts (H, W) = Inr labels))
       \<and> (\<forall>labels. segment_pcd_from_2d fl res Ki E pts (H, W) = Inr labels \<longrightarrow>
            score = Max (set (scores_at fl masks_resized Ki E (pts ! i)))
            \<and> (score = 1 / 2 \<longrightarrow> labels ! i = - 1)
            \<and> (score \<le> 1 / 2 \<longrightarrow> labels ! i = - 1)
            \<and> (1 / 2 < score \<longrightarrow> labels ! i = to_int fl (boxes_cls res ! k)))"
proof (intro conjI allI impI)
  assume "has_detections res (H, W)"
  from segment_pcd_from_2d_total [OF this, of fl Ki E pts]
  show "\<exists>labels. segment_pcd_from_2d fl res Ki E pts (H, W) = Inr labels" by blast
next
  fix labels assume ret: "segment_pcd_from_2d fl res Ki E pts (H, W) = Inr labels"
  from segment_pcd_from_2d_result [OF ret] mr
  have ne: "masks_resized \<noteq> []"
    and lab: "labels = map (point_label fl masks_resized (boxes_cls res) Ki E (H, W)) pts"
    by auto
  have li: "labels ! i = point_label fl masks_resized (boxes_cls res) Ki E (H, W) (pts ! i)"
    using lab i by simp
  have "scores_at fl masks_resized Ki E (pts ! i) \<noteq> []" using ne by (simp add: scores_at_def)
  from max_with_index_Max [OF this] best
  show "score = Max (set (scores_at fl masks_resized Ki E (pts ! i)))" by simp
  { assume "score = 1 / 2"
    then show "labels ! i = - 1"
      using li best by (simp add: point_label_def accepted_def) }
  { assume "score \<le> 1 / 2"
    then show "labels ! i = - 1"
      using li best by (simp add: point_label_def accepted_def) }
  { assume "1 / 2 < score"
    then show "labels ! i = to_int fl (boxes_cls res ! k)"
      using li best surv by (simp add: point_label_def accepted_def) }
qed

theorem segment_threshold_strict_witness:
  "0 < length example_points
   \<and> survives exact_arithmetic example_intrinsic example_extrinsic (2, 4) (example_points ! 0)
   \<and> max_with_index (scores_at exact_arithmetic
          [[[3 / 4, 5 / 8, 3 / 8, 1 / 4], [3 / 4, 5 / 8, 3 / 8, 1 / 4]],
           [[1 / 2, 1 / 2, 1 / 2, 1 / 2], [1 / 2, 1 / 2, 1 / 2, 1 / 2]]]
          example_intrinsic example_extrinsic (example_points ! 0)) = (1 / 2, 1)
   \<and> 4 < length example_points
   \<and> survives exact_arithmetic example_intrinsic example_extrinsic (2, 4) (example_points ! 4)
   \<and> max_with_index (scores_at exact_arithmetic
          [[[3 / 4, 5 / 8, 3 / 8, 1 / 4], [3 / 4, 5 / 8, 3 / 8, 1 / 4]],
           [[1 / 2, 1 / 2, 1 / 2, 1 / 2], [1 / 2, 1 / 2, 1 / 2, 1 / 2]]]
          example_intrinsic example_extrinsic (example_points ! 4)) = (3 / 4, 0)
   \<and> has_detections example_detections (2, 4)
   \<and> (\<exists>labels. segment_pcd_from_2d exact_arithmetic example_detections example_intrinsic example_extrinsic
                   example_points (2, 4) = Inr labels
                 \<and> labels ! 0 = - 1 \<and> labels ! 4 = 3)"
proof -
  have i0: "0 < length example_points" and i4: "4 < length example_points"
    by (simp_all add: example_points_def)
  have surv0: "survives exact_arithmetic example_intrinsic example_extrinsic (2, 4) (example_points ! 0)"
    by code_simp
  have surv4: "survives exact_arithmetic example_intrinsic example_extrinsic (2, 4) (example_points ! 4)"
    by code_simp
  have best0: "max_with_index (scores_at exact_arithmetic
          [[[3 / 4, 5 / 8, 3 / 8, 1 / 4], [3 / 4, 5 / 8, 3 / 8, 1 / 4]],
           [[1 / 2, 1 / 2, 1 / 2, 1 / 2], [1 / 2, 1 / 2, 1 / 2, 1 / 2]]]
          example_intrinsic example_extrinsic (example_points ! 0)) = (1 / 2, 1)"
    by code_simp
  have best4: "max_with_index (scores_at exact_arithmetic
          [[[3 / 4, 5 / 8, 3 / 8, 1 / 4], [3 / 4, 5 / 8, 3 / 8, 1 / 4]],
           [[1 / 2, 1 / 2, 1 / 2, 1 / 2], [1 / 2, 1 / 2, 1 / 2, 1 / 2]]]
          example_intrinsic example_extrinsic (example_points ! 4)) = (3 / 4, 0)"
    by code_simp
  have cls: "to_int exact_arithmetic (boxes_cls example_detections ! 0) = 3" by code_simp
  have above: "(1 :: real) / 2 < 3 / 4" by simp
  note t0 = segment_threshold_strict [OF i0 surv0 example_resized best0]
  note t4 = segment_threshold_strict [OF i4 surv4 example_resized best4]
  from t0 example_has_detections obtain labels
    where ret: "segment_pcd_from_2d exact_arithmetic example_detections example_intrinsic example_extrinsic
                  example_points (2, 4) = Inr labels"
    by blast
  from t0 ret have l0: "labels ! 0 = - 1" by blast
  from t4 ret above have "labels ! 4 = to_int exact_arithmetic (boxes_cls example_detections ! 0)" by blast
  with cls have l4: "labels ! 4 = 3" by simp
  from ret l0 l4 i0 i4 surv0 surv4 best0 best4 example_has_detections show ?thesis by blast
qed

text \<open>
  Claim C4: a point whose camera-frame depth is \<open>\<le> 0\<close> gets the label \<open>-1\<close>, whatever
  the masks hold: in every label array the function returns, and it returns one whenever
  there is at least one mask. The depth is the \<open>z\<close> that the matrix product of the code
  gives the point, for every float implementation.
\<close>

theorem segment_behind_camera:
  assumes i: "i < length pts"
    and behind: "depth_of (to_camera fl E (pts ! i)) \<le> 0"
  shows "(has_detections res (H, W) \<longrightarrow>
            (\<exists>labels. segment_pcd_from_2d fl res Ki E pts (H, W) = Inr labels))
       \<and> (\<forall>labels. segment_pcd_from_2d fl res Ki E pts (H, W) = Inr labels \<longrightarrow> labels ! i = - 1)"
proof (intro conjI allI impI)
  assume "has_detections res (H, W)"
  from segment_pcd_from_2d_total [OF this, of fl Ki E pts]
  show "\<exists>labels. segment_pcd_from_2d fl res Ki E pts (H, W) = Inr labels" by blast
next
  fix labels assume ret: "segment_pcd_from_2d fl res Ki E pts (H, W) = Inr labels"
  from segment_pcd_from_2d_result [OF ret] obtain mr
    where lab: "labels = map (point_label fl mr (boxes_cls res) Ki E (H, W)) pts" by blast
  have "\<not> accepted fl mr Ki E (H, W) (pts ! i)"
    using behind by (simp add: accepted_def survives_def)
  then show "labels ! i = - 1"
    using lab i by (simp add: point_label_filtered)
qed

theorem segment_behind_camera_witness:
  "1 < length example_points
   \<and> depth_of (to_camera exact_arithmetic example_extrinsic (example_points ! 1)) \<le> 0
   \<and> has_detections example_detections (2, 4)
   \<and> (\<exists>labels. segment_pcd_from_2d exact_arithmetic example_detections example_intrinsic example_extrinsic
                   example_points (2, 4) = Inr labels \<and> labels ! 1 = - 1)"
proof -
  have i: "1 < length example_points" by (simp add: example_points_def)
  have behind: "depth_of (to_camera exact_arithmetic example_extrinsic (example_points ! 1)) \<le> 0"
    by code_simp
  show ?thesis
    using segment_behind_camera [OF i behind, of example_detections 2 4 example_intrinsic]
      i behind example_has_detections
    by blast
qed

text \<open>
  Claim C5: for a point in front of the camera, at camera-frame \<open>(x, y, z)\<close>, the pixel
  is \<open>u = round (x fx / z + cx)\<close>, \<open>v = round (y fy / z + cy)\<close>, where \<open>*\<close>, \<open>/\<close>
  and \<open>+\<close> are the float operations of the code, in this order, \<open>round\<close> gives an
  integer nearest to the float it is applied to, and that integer is stored as an
  \<open>int64\<close> (unchanged when it fits); a pixel outside \<open>[0, W) \<times> [0, H)\<close> gives the
  label \<open>-1\<close>, and a pixel inside is the place where the resized masks are read.
\<close>

theorem segment_pixel_and_bounds:
  assumes i: "i < length pts"
    and cam: "to_camera fl E (pts ! i) = (x, y, z)"
    and front: "0 < z"
    and u: "u = pixel_u fl Ki (to_camera fl E (pts ! i))"
    and v: "v = pixel_v fl Ki (to_camera fl E (pts ! i))"
  shows "u = to_long fl (torch_round (fadd fl (fdiv fl (fmul fl x (Ki ! 0 ! 0)) z) (Ki ! 0 ! 2)))
       \<and> v = to_long fl (torch_round (fadd fl (fdiv fl (fmul fl y (Ki ! 1 ! 1)) z) (Ki ! 1 ! 2)))
       \<and> (\<forall>n. \<bar>(fadd fl (fdiv fl (fmul fl x (Ki ! 0 ! 0)) z) (Ki ! 0 ! 2)) - of_int (torch_round (fadd fl (fdiv fl (fmul fl x (Ki ! 0 ! 0)) z) (Ki ! 0 ! 2)))\<bar>
                 \<le> \<bar>(fadd fl (fdiv fl (fmul fl x (Ki ! 0 ! 0)) z) (Ki ! 0 ! 2)) - of_int n\<bar>)
       \<and> (\<forall>n. \<bar>(fadd fl (fdiv fl (fmul fl y (Ki ! 1 ! 1)) z) (Ki ! 1 ! 2)) - of_int (torch_round (fadd fl (fdiv fl (fmul fl y (Ki ! 1 ! 1)) z) (Ki ! 1 ! 2)))\<bar>
                 \<le> \<bar>(fadd fl (fdiv fl (fmul fl y (Ki ! 1 ! 1)) z) (Ki ! 1 ! 2)) - of_int n\<bar>)
       \<and> \<bar>(fadd fl (fdiv fl (fmul fl x (Ki ! 0 ! 0)) z) (Ki ! 0 ! 2)) - of_int (torch_round (fadd fl (fdiv fl (fmul fl x (Ki ! 0 ! 0)) z) (Ki ! 0 ! 2)))\<bar> \<le> 1 / 2
       \<and> \<bar>(fadd fl (fdiv fl (fmul fl y (Ki ! 1 ! 1)) z) (Ki ! 1 ! 2)) - of_int (torch_round (fadd fl (fdiv fl (fmul fl y (Ki ! 1 ! 1)) z) (Ki ! 1 ! 2)))\<bar> \<le> 1 / 2
       \<and> (- (2 ^ 63) \<le> torch_round (fadd fl (fdiv fl (fmul fl x (Ki ! 0 ! 0)) z) (Ki ! 0 ! 2)) \<and> torch_round (fadd fl (fdiv fl (fmul fl x (Ki ! 0 ! 0)) z) (Ki ! 0 ! 2)) < 2 ^ 63
            \<longrightarrow> u = torch_round (fadd fl (fdiv fl (fmul fl x (Ki ! 0 ! 0)) z) (Ki ! 0 ! 2)))
       \<and> (- (2 ^ 63) \<le> torch_round (fadd fl (fdiv fl (fmul fl y (Ki ! 1 ! 1)) z) (Ki ! 1 ! 2)) \<and> torch_round (fadd fl (fdiv fl (fmul fl y (Ki ! 1 ! 1)) z) (Ki ! 1 ! 2)) < 2 ^ 63
            \<longrightarrow> v = torch_round (fadd fl (fdiv fl (fmul fl y (Ki ! 1 ! 1)) z) (Ki ! 1 ! 2)))
       \<and> (has_detections res (H, W) \<longrightarrow>
            (\<exists>labels. segment_pcd_from_2d fl res Ki E pts (H, W) = Inr labels))
       \<and> (\<forall>labels masks_resized.
            segment_pcd_from_2d fl res Ki E pts (H, W) = Inr labels
            \<and> interpolate_bilinear fl (masks_shape res) (masks_data res) (H, W) = Inr masks_resized
            \<longrightarrow> (\<not> (0 \<le> u \<and> u < int W \<and> 0 \<le> v \<and> v < int H) \<longrightarrow> labels ! i = - 1)
              \<and> (0 \<le> u \<and> u < int W \<and> 0 \<le> v \<and> v < int H \<longrightarrow>
                   labels ! i =
                     (case max_with_index (map (\<lambda>m. m ! nat v ! nat u) masks_resized) of
                        (score, k) \<Rightarrow>
                          if 1 / 2 < score then to_int fl (boxes_cls res ! k) else - 1)))"
proof (intro conjI allI impI)
  show pu: "u = to_long fl (torch_round (fadd fl (fdiv fl (fmul fl x (Ki ! 0 ! 0)) z) (Ki ! 0 ! 2)))"
    by (simp add: u cam pixel_u_def)
  show pv: "v = to_long fl (torch_round (fadd fl (fdiv fl (fmul fl y (Ki ! 1 ! 1)) z) (Ki ! 1 ! 2)))"
    by (simp add: v cam pixel_v_def)
  show "\<bar>(fadd fl (fdiv fl (fmul fl x (Ki ! 0 ! 0)) z) (Ki ! 0 ! 2)) - of_int (torch_round (fadd fl (fdiv fl (fmul fl x (Ki ! 0 ! 0)) z) (Ki ! 0 ! 2)))\<bar>
       \<le> \<bar>(fadd fl (fdiv fl (fmul fl x (Ki ! 0 ! 0)) z) (Ki ! 0 ! 2)) - of_int n\<bar>" for n
    by (rule torch_round_nearest)
  show "\<bar>(fadd fl (fdiv fl (fmul fl y (Ki ! 1 ! 1)) z) (Ki ! 1 ! 2)) - of_int (torch_round (fadd fl (fdiv fl (fmul fl y (Ki ! 1 ! 1)) z) (Ki ! 1 ! 2)))\<bar>
       \<le> \<bar>(fadd fl (fdiv fl (fmul fl y (Ki ! 1 ! 1)) z) (Ki ! 1 ! 2)) - of_int n\<bar>" for n
    by (rule torch_round_nearest)
  show "\<bar>(fadd fl (fdiv fl (fmul fl x (Ki ! 0 ! 0)) z) (Ki ! 0 ! 2)) - of_int (torch_round (fadd fl (fdiv fl (fmul fl x (Ki ! 0 ! 0)) z) (Ki ! 0 ! 2)))\<bar> \<le> 1 / 2"
    by (rule torch_round_half)
  show "\<bar>(fadd fl (fdiv fl (fmul fl y (Ki ! 1 ! 1)) z) (Ki ! 1 ! 2)) - of_int (torch_round (fadd fl (fdiv fl (fmul fl y (Ki ! 1 ! 1)) z) (Ki ! 1 ! 2)))\<bar> \<le> 1 / 2"
    by (rule torch_round_half)
  show "u = torch_round (fadd fl (fdiv fl (fmul fl x (Ki ! 0 ! 0)) z) (Ki ! 0 ! 2))"
    if "- (2 ^ 63) \<le> torch_round (fadd fl (fdiv fl (fmul fl x (Ki ! 0 ! 0)) z) (Ki ! 0 ! 2)) \<and> torch_round (fadd fl (fdiv fl (fmul fl x (Ki ! 0 ! 0)) z) (Ki ! 0 ! 2)) < 2 ^ 63"
    using that unfolding pu by (simp add: to_long_def)
  show "v = torch_round (fadd fl (fdiv fl (fmul fl y (Ki ! 1 ! 1)) z) (Ki ! 1 ! 2))"
    if "- (2 ^ 63) \<le> torch_round (fadd fl (fdiv fl (fmul fl y (Ki ! 1 ! 1)) z) (Ki ! 1 ! 2)) \<and> torch_round (fadd fl (fdiv fl (fmul fl y (Ki ! 1 ! 1)) z) (Ki ! 1 ! 2)) < 2 ^ 63"
    using that unfolding pv by (simp add: to_long_def)
next
  assume "has_detections res (H, W)"
  from segment_pcd_from_2d_total [OF this, of fl Ki E pts]
  show "\<exists>labels. segment_pcd_from_2d fl res Ki E pts (H, W) = Inr labels" by blast
next
  fix labels masks_resized
  assume both: "segment_pcd_from_2d fl res Ki E pts (H, W) = Inr labels
     \<and> interpolate_bilinear fl (masks_shape res) (masks_data res) (H, W) = Inr masks_resized"
  from segment_pcd_from_2d_result [of fl res Ki E pts H W labels] both
  have li: "labels ! i = point_label fl masks_resized (boxes_cls res) Ki E (H, W) (pts ! i)"
    using i by auto
  { assume "\<not> (0 \<le> u \<and> u < int W \<and> 0 \<le> v \<and> v < int H)"
    then have "\<not> accepted fl masks_resized Ki E (H, W) (pts ! i)"
      by (auto simp: accepted_def survives_def in_image_def u v)
    then show "labels ! i = - 1" using li by (simp add: point_label_filtered) }
  { assume "0 \<le> u \<and> u < int W \<and> 0 \<le> v \<and> v < int H"
    then have "survives fl Ki E (H, W) (pts ! i)"
      using front cam by (simp add: survives_def in_image_def u v depth_of_def)
    then show "labels ! i =
        (case max_with_index (map (\<lambda>m. m ! nat v ! nat u) masks_resized) of
           (score, k) \<Rightarrow> if 1 / 2 < score then to_int fl (boxes_cls res ! k) else - 1)"
      using li by (simp add: point_label_def accepted_def scores_at_def u v split_beta) }
qed

theorem segment_pixel_and_bounds_witness:
  "2 < length example_points
   \<and> to_camera exact_arithmetic example_extrinsic (example_points ! 2) = (5, 0, 1)
   \<and> (0 :: real) < 1
   \<and> pixel_u exact_arithmetic example_intrinsic (to_camera exact_arithmetic example_extrinsic (example_points ! 2)) = 12
   \<and> pixel_v exact_arithmetic example_intrinsic (to_camera exact_arithmetic example_extrinsic (example_points ! 2)) = 1
   \<and> has_detections example_detections (2, 4)
   \<and> (\<exists>labels. segment_pcd_from_2d exact_arithmetic example_detections example_intrinsic example_extrinsic
                   example_points (2, 4) = Inr labels \<and> labels ! 2 = - 1)"
proof -
  have i: "2 < length example_points" by (simp add: example_points_def)
  have cam: "to_camera exact_arithmetic example_extrinsic (example_points ! 2) = (5, 0, 1)" by code_simp
  have front: "(0 :: real) < 1" by simp
  have u: "12 = pixel_u exact_arithmetic example_intrinsic (to_camera exact_arithmetic example_extrinsic (example_points ! 2))"
    by code_simp
  have v: "1 = pixel_v exact_arithmetic example_intrinsic (to_camera exact_arithmetic example_extrinsic (example_points ! 2))"
    by code_simp
  have out: "\<not> (0 \<le> (12 :: int) \<and> (12 :: int) < int 4 \<and> 0 \<le> (1 :: int) \<and> (1 :: int) < int 2)"
    by simp
  note t = segment_pixel_and_bounds [OF i cam front u v, of example_detections 2 4]
  from t example_has_detections obtain labels
    where ret: "segment_pcd_from_2d exact_arithmetic example_detections example_intrinsic example_extrinsic
                  example_points (2, 4) = Inr labels"
    by blast
  from t ret example_resized out have "labels ! 2 = - 1" by blast
  with ret i cam u [symmetric] v [symmetric] example_has_detections show ?thesis by simp
qed

text \<open>
  Claim C6, as stated, gives every point that survives the depth and bounds tests the
  class id of the lowest-index mask among those that attain the maximum score. The
  threshold comes after the max-reduction: a point whose tied maximum is not above
  \<open>0.5\<close> keeps \<open>-1\<close>. Here the two masks tie at \<open>0.25\<close> at the pixel of point 0,
  which survives, the class id of mask 0 is 3, and the label of the point is \<open>-1\<close>.
  (The masks are constant, so the resize returns \<open>0.25\<close> whatever its rounding.)
\<close>

theorem segment_tie_below_threshold_unlabeled:
  "survives exact_arithmetic example_intrinsic example_extrinsic (2, 4) (example_points ! 0)
   \<and> interpolate_bilinear exact_arithmetic (masks_shape low_tied_detections)
         (masks_data low_tied_detections) (2, 4)
       = Inr [[[1 / 4, 1 / 4, 1 / 4, 1 / 4], [1 / 4, 1 / 4, 1 / 4, 1 / 4]],
              [[1 / 4, 1 / 4, 1 / 4, 1 / 4], [1 / 4, 1 / 4, 1 / 4, 1 / 4]]]
   \<and> scores_at exact_arithmetic
         [[[1 / 4, 1 / 4, 1 / 4, 1 / 4], [1 / 4, 1 / 4, 1 / 4, 1 / 4]],
          [[1 / 4, 1 / 4, 1 / 4, 1 / 4], [1 / 4, 1 / 4, 1 / 4, 1 / 4]]]
         example_intrinsic example_extrinsic (example_points ! 0) = [1 / 4, 1 / 4]
   \<and> to_int exact_arithmetic (boxes_cls low_tied_detections ! 0) = 3
   \<and> segment_pcd_from_2d exact_arithmetic low_tied_detections example_intrinsic
         example_extrinsic example_points (2, 4) = Inr [- 1, - 1, - 1, - 1, - 1]"
  by code_simp

text \<open>
  Claim C6, amended: when several masks attain the maximum score at the pixel of a
  surviving point and that maximum exceeds \<open>0.5\<close>, the point gets the class id of the
  lowest-index mask among them; when the maximum does not exceed \<open>0.5\<close> the point
  keeps \<open>-1\<close>. The index \<open>k\<close> chosen by the max-reduction attains the maximum and no
  lower index does. The scores are the values the resize returns, whatever its
  rounding.
\<close>

theorem segment_tie_lowest_index:
  assumes i: "i < length pts"
    and surv: "survives fl Ki E (H, W) (pts ! i)"
    and mr: "interpolate_bilinear fl (masks_shape res) (masks_data res) (H, W) = Inr masks_resized"
    and sc: "scores = scores_at fl masks_resized Ki E (pts ! i)"
    and k: "k = snd (max_with_index scores)"
  shows "(has_detections res (H, W) \<longrightarrow>
            (\<exists>labels. segment_pcd_from_2d fl res Ki E pts (H, W) = Inr labels))
       \<and> (\<forall>labels. segment_pcd_from_2d fl res Ki E pts (H, W) = Inr labels \<longrightarrow>
            k < length scores \<and> scores ! k = Max (set scores)
            \<and> (\<forall>j<length scores. scores ! j = Max (set scores) \<longrightarrow> k \<le> j)
            \<and> (1 / 2 < Max (set scores) \<longrightarrow> labels ! i = to_int fl (boxes_cls res ! k))
            \<and> (Max (set scores) \<le> 1 / 2 \<longrightarrow> labels ! i = - 1))"
proof (intro conjI allI impI)
  assume "has_detections res (H, W)"
  from segment_pcd_from_2d_total [OF this, of fl Ki E pts]
  show "\<exists>labels. segment_pcd_from_2d fl res Ki E pts (H, W) = Inr labels" by blast
next
  fix labels assume ret: "segment_pcd_from_2d fl res Ki E pts (H, W) = Inr labels"
  from segment_pcd_from_2d_result [OF ret] mr
  have ne: "masks_resized \<noteq> []"
    and lab: "labels = map (point_label fl masks_resized (boxes_cls res) Ki E (H, W)) pts"
    by auto
  have li: "labels ! i = point_label fl masks_resized (boxes_cls res) Ki E (H, W) (pts ! i)"
    using lab i by simp
  have nonempty: "scores \<noteq> []" using ne by (simp add: sc scores_at_def)
  note props = max_with_index_props [OF nonempty] max_with_index_Max [OF nonempty]
  show "k < length scores" using props(1) by (simp add: k)
  show top: "scores ! k = Max (set scores)" using props(2,5) by (simp add: k)
  { fix j assume "j < length scores" "scores ! j = Max (set scores)"
    then show "k \<le> j" using props(4,5) unfolding k by (metis not_le_imp_less less_irrefl) }
  { assume "1 / 2 < Max (set scores)"
    then show "labels ! i = to_int fl (boxes_cls res ! k)"
      using li surv props(5) by (simp add: point_label_def accepted_def sc k) }
  { assume "Max (set scores) \<le> 1 / 2"
    then show "labels ! i = - 1"
      using li props(5) by (simp add: point_label_def accepted_def sc) }
qed

theorem segment_tie_lowest_index_witness:
  "4 < length example_points
   \<and> survives exact_arithmetic example_intrinsic example_extrinsic (2, 4) (example_points ! 4)
   \<and> scores_at exact_arithmetic [[[1 / 4, 1 / 4, 1 / 4, 1 / 4], [1 / 4, 1 / 4, 1 / 4, 1 / 4]],
            [[3 / 4, 5 / 8, 3 / 8, 1 / 4], [3 / 4, 5 / 8, 3 / 8, 1 / 4]],
            [[3 / 4, 3 / 4, 3 / 4, 3 / 4], [3 / 4, 3 / 4, 3 / 4, 3 / 4]]]
        example_intrinsic example_extrinsic (example_points ! 4) = [1 / 4, 3 / 4, 3 / 4]
   \<and> snd (max_with_index [1 / 4, 3 / 4, 3 / 4]) = 1
   \<and> Max (set [1 / 4, 3 / 4, 3 / 4 :: real]) = 3 / 4
   \<and> has_detections tied_detections (2, 4)
   \<and> (\<exists>labels. segment_pcd_from_2d exact_arithmetic tied_detections example_intrinsic example_extrinsic
                   example_points (2, 4) = Inr labels
                 \<and> labels ! 4 = to_int exact_arithmetic (boxes_cls tied_detections ! 1) \<and> labels ! 4 = 7)"
proof -
  have i: "4 < length example_points" by (simp add: example_points_def)
  have surv: "survives exact_arithmetic example_intrinsic example_extrinsic (2, 4) (example_points ! 4)"
    by code_simp
  have sc: "[1 / 4, 3 / 4, 3 / 4]
      = scores_at exact_arithmetic [[[1 / 4, 1 / 4, 1 / 4, 1 / 4], [1 / 4, 1 / 4, 1 / 4, 1 / 4]],
            [[3 / 4, 5 / 8, 3 / 8, 1 / 4], [3 / 4, 5 / 8, 3 / 8, 1 / 4]],
            [[3 / 4, 3 / 4, 3 / 4, 3 / 4], [3 / 4, 3 / 4, 3 / 4, 3 / 4]]]
        example_intrinsic example_extrinsic (example_points ! 4)"
    by code_simp
  have k: "1 = snd (max_with_index [1 / 4, 3 / 4, 3 / 4])" by code_simp
  have top: "Max (set [1 / 4, 3 / 4, 3 / 4 :: real]) = 3 / 4" by simp
  have h: "has_detections tied_detections (2, 4)"
    by (simp add: has_detections_def tied_detections_def)
  have cls: "to_int exact_arithmetic (boxes_cls tied_detections ! 1) = 7" by code_simp
  have big: "(1 :: real) / 2 < 3 / 4" by simp
  show ?thesis
    using segment_tie_lowest_index [OF i surv tied_resized sc k] i surv sc [symmetric]
      k [symmetric] top h cls big
    by (metis (no_types, lifting))
qed

section \<open>Properties of the controller\<close>

lemma str_nat_digit: "n < 10 \<Longrightarrow> str_nat n = [digit_char n]"
  by (subst str_nat.simps) simp

lemma cv_notify_in_with:
  "cv_notify (cv_enter c)
     = Inr (c\<lparr>lock_count := Suc (lock_count c), cv_log := cv_log c @ [Acquire, Notify]\<rparr>)"
  by (simp add: cv_notify_def cv_enter_def)

lemma cv_notify_all_in_with:
  "cv_notify_all (cv_enter c)
     = Inr (c\<lparr>lock_count := Suc (lock_count c), cv_log := cv_log c @ [Acquire, NotifyAll]\<rparr>)"
  by (simp add: cv_notify_all_def cv_enter_def)

lemma reachable_not_drawing: "reachable s \<Longrightarrow> \<not> drawing_rectangle s"
proof (induction rule: reachable.induct)
  case (r_init v m)
  show ?case by (simp add: init_def)
next
  case (r_toggle_capture s is_on s')
  then show ?case
    by (auto simp: on_toggle_capture_def on_toggle_record_def Let_def cv_notify_in_with
        split: if_splits)
next
  case (r_window_close s ok s')
  then show ?case
    by (auto simp: on_window_close_def Let_def cv_notify_all_in_with)
next
  case (r_mouse s event r s')
  then show ?case
    by (auto simp: on_mouse_widget3d_def Let_def split: if_splits)
next
  case (r_depth_callback format_3f s x y img s')
  then show ?case
    by (auto simp: depth_callback_def Let_def split: sum.splits)
qed (simp_all add: update_view_def on_toggle_record_def on_toggle_normals_def on_save_pcd_def
    on_toggle_model_init_def on_save_rgbd_def update_label_def)

lemma on_mouse_widget3d_request:
  assumes "on_mouse_widget3d s0 event = (r, s1)"
    and "depth_requests s1 = depth_requests s0 @ [DepthCallback x y]"
  shows "0 \<le> x \<and> x < frame_width (frame (pipeline_view s0))
       \<and> 0 \<le> y \<and> y < frame_height (frame (pipeline_view s0))
       \<and> x = ev_x event - frame_x (frame (pipeline_view s0))
       \<and> y = ev_y event - frame_y (frame (pipeline_view s0))
       \<and> r = HANDLED"
  using assms by (auto simp: on_mouse_widget3d_def Let_def split: if_splits)

lemma sample_depth_inside:
  assumes "0 \<le> x" "0 \<le> y"
    and "y < int (fst (depth_shape img)) \<and> x < int (snd (depth_shape img))"
  shows "sample_depth img x y = Inr (depth_data img ! nat y ! nat x)"
  using assms by (simp add: sample_depth_def np_index_def)

lemma sample_depth_outside:
  assumes "\<not> (y < int (fst (depth_shape img)) \<and> x < int (snd (depth_shape img)))"
  shows "sample_depth img x y = Inr 1"
  using assms by (auto simp: sample_depth_def)

lemma depth_callback_text:
  assumes "sample_depth img x y = Inr depth"
  shows "depth_callback format_3f x y s img =
     Inr (s\<lparr>main_thread_queue := main_thread_queue s @
          [UpdateLabel
            (if depth = 1 then ''Mouse Coord: Clicked on nothing''
             else (case camera_unproject (pipeline_view s) x y depth
                          (frame_width (frame (pipeline_view s)))
                          (frame_height (frame (pipeline_view s))) of
                     (w0, w1, w2) \<Rightarrow>
                       ''Mouse Coord: ('' @ format_3f w0 @ '', '' @ format_3f w1 @ '', ''
                       @ format_3f w2 @ '')''))]\<rparr>)"
  using assms by (simp add: depth_callback_def Let_def)

lemma format_3f_examples:
  "python_format_3f (Finite 2) = ''2.000''" "python_format_3f (Finite 1) = ''1.000''"
  "python_format_3f (Finite (1 / 4)) = ''0.250''"
  by (simp_all add: format_finite_def torch_round_def Let_def str_nat_digit digit_char_def)

subsection \<open>The claims about the controller\<close>

text \<open>
  Claim C7: \<open>on_toggle_capture\<close> with the argument false clears the model's record
  flag and, when the record control exists, switches it off; with the argument true it
  notifies \<open>cv_capture\<close> between acquiring and releasing its lock (so \<open>notify\<close> does
  not raise), and leaves the lock as it found it.
\<close>

theorem on_toggle_capture_effects:
  "(\<exists>s'. on_toggle_capture s False = Inr s'
         \<and> flag_record (pipeline_model s') = False
         \<and> toggle_record (pipeline_view s')
             = (case toggle_record (pipeline_view s) of None \<Rightarrow> None | Some b \<Rightarrow> Some False))
   \<and> (\<exists>s'. on_toggle_capture s True = Inr s'
         \<and> cv_log (cv_capture (pipeline_model s'))
             = cv_log (cv_capture (pipeline_model s)) @ [Acquire, Notify, Release]
         \<and> lock_count (cv_capture (pipeline_model s'))
             = lock_count (cv_capture (pipeline_model s)))"
proof
  show "\<exists>s'. on_toggle_capture s False = Inr s'
         \<and> flag_record (pipeline_model s') = False
         \<and> toggle_record (pipeline_view s')
             = (case toggle_record (pipeline_view s) of None \<Rightarrow> None | Some b \<Rightarrow> Some False)"
    by (cases "toggle_record (pipeline_view s)")
      (simp_all add: on_toggle_capture_def on_toggle_record_def Let_def)
  show "\<exists>s'. on_toggle_capture s True = Inr s'
         \<and> cv_log (cv_capture (pipeline_model s'))
             = cv_log (cv_capture (pipeline_model s)) @ [Acquire, Notify, Release]
         \<and> lock_count (cv_capture (pipeline_model s'))
             = lock_count (cv_capture (pipeline_model s))"
    by (simp add: on_toggle_capture_def Let_def cv_notify_in_with cv_exit_def)
qed

text \<open>
  Claim C8: \<open>on_window_close\<close> sets the exit flag, calls \<open>notify_all\<close> (not
  \<open>notify\<close>) on \<open>cv_capture\<close> while it holds the lock, and returns \<open>True\<close>.
\<close>

theorem on_window_close_effects:
  "\<exists>s'. on_window_close s = Inr (True, s')
        \<and> flag_exit (pipeline_model s') = True
        \<and> cv_log (cv_capture (pipeline_model s'))
            = cv_log (cv_capture (pipeline_model s)) @ [Acquire, NotifyAll, Release]
        \<and> lock_count (cv_capture (pipeline_model s')) = lock_count (cv_capture (pipeline_model s))"
  by (simp add: on_window_close_def Let_def cv_notify_all_in_with cv_exit_def)

text \<open>
  Claim C9: the depth query issued for a click at \<open>(x, y)\<close>. The click handler only
  issues queries with \<open>x, y \<ge> 0\<close>; a pixel outside the depth image is given the far-plane
  depth \<open>1.0\<close>; a depth of \<open>1.0\<close> is reported as a click on nothing, any other depth
  is unprojected by the current camera to three coordinates, each of which is
  formatted (by the parameter \<open>format_3f\<close>) into the text; and the callback itself
  leaves the view alone: it posts a closure, and the label changes when that closure
  runs.
\<close>

theorem depth_pick_result:
  assumes click: "on_mouse_widget3d s0 event = (r, s1)"
    and issued: "depth_requests s1 = depth_requests s0 @ [DepthCallback x y]"
  shows "0 \<le> x \<and> 0 \<le> y
     \<and> (\<not> (y < int (fst (depth_shape img)) \<and> x < int (snd (depth_shape img)))
          \<longrightarrow> sample_depth img x y = Inr 1)
     \<and> (y < int (fst (depth_shape img)) \<and> x < int (snd (depth_shape img))
          \<longrightarrow> sample_depth img x y = Inr (depth_data img ! nat y ! nat x))
     \<and> (\<exists>depth. sample_depth img x y = Inr depth
          \<and> (depth = 1 \<longrightarrow>
               depth_callback format_3f x y s img =
                 Inr (s\<lparr>main_thread_queue := main_thread_queue s @
                        [UpdateLabel ''Mouse Coord: Clicked on nothing'']\<rparr>))
          \<and> (depth \<noteq> 1 \<longrightarrow>
               (\<exists>w0 w1 w2.
                  camera_unproject (pipeline_view s) x y depth
                      (frame_width (frame (pipeline_view s)))
                      (frame_height (frame (pipeline_view s))) = (w0, w1, w2)
                  \<and> depth_callback format_3f x y s img =
                      Inr (s\<lparr>main_thread_queue := main_thread_queue s @
                             [UpdateLabel (''Mouse Coord: ('' @ format_3f w0 @ '', ''
                                @ format_3f w1 @ '', '' @ format_3f w2 @ '')'')]\<rparr>))))
     \<and> (\<exists>s' text. depth_callback format_3f x y s img = Inr s'
          \<and> pipeline_view s' = pipeline_view s
          \<and> main_thread_queue s' = main_thread_queue s @ [UpdateLabel text]
          \<and> mouse_coord (pipeline_view (update_label s' text)) = text)"
proof -
  from on_mouse_widget3d_request [OF click issued] have xy: "0 \<le> x" "0 \<le> y" by simp_all
  have out: "sample_depth img x y = Inr 1"
    if "\<not> (y < int (fst (depth_shape img)) \<and> x < int (snd (depth_shape img)))"
    using that by (rule sample_depth_outside)
  have ins: "sample_depth img x y = Inr (depth_data img ! nat y ! nat x)"
    if "y < int (fst (depth_shape img)) \<and> x < int (snd (depth_shape img))"
    using xy that by (rule sample_depth_inside)
  obtain depth where d: "sample_depth img x y = Inr depth"
    using out ins by (cases "y < int (fst (depth_shape img)) \<and> x < int (snd (depth_shape img))")
      blast+
  note cb = depth_callback_text [OF d, of format_3f s]
  have sampled: "\<exists>depth. sample_depth img x y = Inr depth
          \<and> (depth = 1 \<longrightarrow>
               depth_callback format_3f x y s img =
                 Inr (s\<lparr>main_thread_queue := main_thread_queue s @
                        [UpdateLabel ''Mouse Coord: Clicked on nothing'']\<rparr>))
          \<and> (depth \<noteq> 1 \<longrightarrow>
               (\<exists>w0 w1 w2.
                  camera_unproject (pipeline_view s) x y depth
                      (frame_width (frame (pipeline_view s)))
                      (frame_height (frame (pipeline_view s))) = (w0, w1, w2)
                  \<and> depth_callback format_3f x y s img =
                      Inr (s\<lparr>main_thread_queue := main_thread_queue s @
                             [UpdateLabel (''Mouse Coord: ('' @ format_3f w0 @ '', ''
                                @ format_3f w1 @ '', '' @ format_3f w2 @ '')'')]\<rparr>)))"
  proof (rule exI [of _ depth], intro conjI impI)
    show "sample_depth img x y = Inr depth" by (rule d)
  next
    assume "depth = 1"
    with cb show "depth_callback format_3f x y s img =
        Inr (s\<lparr>main_thread_queue := main_thread_queue s @
               [UpdateLabel ''Mouse Coord: Clicked on nothing'']\<rparr>)"
      by simp
  next
    assume ne: "depth \<noteq> 1"
    obtain w0 w1 w2 where w: "camera_unproject (pipeline_view s) x y depth
                      (frame_width (frame (pipeline_view s)))
                      (frame_height (frame (pipeline_view s))) = (w0, w1, w2)"
      by (cases "camera_unproject (pipeline_view s) x y depth
                      (frame_width (frame (pipeline_view s)))
                      (frame_height (frame (pipeline_view s)))") auto
    from cb ne w have "depth_callback format_3f x y s img =
                      Inr (s\<lparr>main_thread_queue := main_thread_queue s @
                             [UpdateLabel (''Mouse Coord: ('' @ format_3f w0 @ '', ''
                                @ format_3f w1 @ '', '' @ format_3f w2 @ '')'')]\<rparr>)"
      by simp
    with w show "\<exists>w0 w1 w2.
                  camera_unproject (pipeline_view s) x y depth
                      (frame_width (frame (pipeline_view s)))
                      (frame_height (frame (pipeline_view s))) = (w0, w1, w2)
                  \<and> depth_callback format_3f x y s img =
                      Inr (s\<lparr>main_thread_queue := main_thread_queue s @
                             [UpdateLabel (''Mouse Coord: ('' @ format_3f w0 @ '', ''
                                @ format_3f w1 @ '', '' @ format_3f w2 @ '')'')]\<rparr>)"
      by (intro exI conjI)
  qed
  have posted: "\<exists>s' text. depth_callback format_3f x y s img = Inr s'
          \<and> pipeline_view s' = pipeline_view s
          \<and> main_thread_queue s' = main_thread_queue s @ [UpdateLabel text]
          \<and> mouse_coord (pipeline_view (update_label s' text)) = text"
    unfolding cb by (simp add: update_label_def)
  show ?thesis
  proof (intro conjI impI)
    show "0 \<le> x" "0 \<le> y" by (rule xy)+
  next
    assume "\<not> (y < int (fst (depth_shape img)) \<and> x < int (snd (depth_shape img)))"
    then show "sample_depth img x y = Inr 1" by (rule out)
  next
    assume "y < int (fst (depth_shape img)) \<and> x < int (snd (depth_shape img))"
    then show "sample_depth img x y = Inr (depth_data img ! nat y ! nat x)" by (rule ins)
  next
    show "\<exists>depth. sample_depth img x y = Inr depth
          \<and> (depth = 1 \<longrightarrow>
               depth_callback format_3f x y s img =
                 Inr (s\<lparr>main_thread_queue := main_thread_queue s @
                        [UpdateLabel ''Mouse Coord: Clicked on nothing'']\<rparr>))
          \<and> (depth \<noteq> 1 \<longrightarrow>
               (\<exists>w0 w1 w2.
                  camera_unproject (pipeline_view s) x y depth
                      (frame_width (frame (pipeline_view s)))
                      (frame_height (frame (pipeline_view s))) = (w0, w1, w2)
                  \<and> depth_callback format_3f x y s img =
                      Inr (s\<lparr>main_thread_queue := main_thread_queue s @
                             [UpdateLabel (''Mouse Coord: ('' @ format_3f w0 @ '', ''
                                @ format_3f w1 @ '', '' @ format_3f w2 @ '')'')]\<rparr>)))"
      by (rule sampled)
  next
    show "\<exists>s' text. depth_callback format_3f x y s img = Inr s'
          \<and> pipeline_view s' = pipeline_view s
          \<and> main_thread_queue s' = main_thread_queue s @ [UpdateLabel text]
          \<and> mouse_coord (pipeline_view (update_label s' text)) = text"
      by (rule posted)
  qed
qed

theorem depth_pick_result_witness:
  "on_mouse_widget3d (init example_view example_model) example_click
      = (HANDLED, (init example_view example_model)\<lparr>depth_requests := [DepthCallback 2 1]\<rparr>)
   \<and> depth_requests ((init example_view example_model)\<lparr>depth_requests := [DepthCallback 2 1]\<rparr>)
      = depth_requests (init example_view example_model) @ [DepthCallback 2 1]
   \<and> sample_depth example_depth 2 1 = Inr (1 / 4)
   \<and> depth_callback python_format_3f 2 1 (init example_view example_model) example_depth
      = Inr ((init example_view example_model)
               \<lparr>main_thread_queue := [UpdateLabel ''Mouse Coord: (2.000, 1.000, 0.250)'']\<rparr>)
   \<and> sample_depth small_depth 2 1 = Inr 1
   \<and> depth_callback python_format_3f 2 1 (init example_view example_model) small_depth
      = Inr ((init example_view example_model)
               \<lparr>main_thread_queue := [UpdateLabel ''Mouse Coord: Clicked on nothing'']\<rparr>)"
proof -
  have click: "on_mouse_widget3d (init example_view example_model) example_click
      = (HANDLED, (init example_view example_model)\<lparr>depth_requests := [DepthCallback 2 1]\<rparr>)"
    by (simp add: on_mouse_widget3d_def init_def example_view_def example_click_def Let_def)
  have issued:
    "depth_requests ((init example_view example_model)\<lparr>depth_requests := [DepthCallback 2 1]\<rparr>)
      = depth_requests (init example_view example_model) @ [DepthCallback 2 1]"
    by (simp add: init_def)
  have d: "sample_depth example_depth 2 1 = Inr (1 / 4)"
    by (simp add: sample_depth_def np_index_def example_depth_def)
  have cam: "camera_unproject (pipeline_view (init example_view example_model)) 2 1 (1 / 4)
      (frame_width (frame (pipeline_view (init example_view example_model))))
      (frame_height (frame (pipeline_view (init example_view example_model)))) = (Finite 2, Finite 1, Finite (1 / 4))"
    by (simp add: init_def example_view_def)
  have q: "main_thread_queue (init example_view example_model) = []"
    by (simp add: init_def)
  note t = depth_pick_result [OF click issued, of example_depth python_format_3f
      "init example_view example_model"]
  from t [THEN conjunct2, THEN conjunct2, THEN conjunct2, THEN conjunct2, THEN conjunct1]
  obtain depth where dd: "sample_depth example_depth 2 1 = Inr depth"
    and hit: "depth \<noteq> 1 \<longrightarrow>
      (\<exists>w0 w1 w2.
        camera_unproject (pipeline_view (init example_view example_model)) 2 1 depth
          (frame_width (frame (pipeline_view (init example_view example_model))))
          (frame_height (frame (pipeline_view (init example_view example_model)))) = (w0, w1, w2)
        \<and> depth_callback python_format_3f 2 1 (init example_view example_model) example_depth =
            Inr ((init example_view example_model)
                  \<lparr>main_thread_queue := main_thread_queue (init example_view example_model) @
                     [UpdateLabel (''Mouse Coord: ('' @ python_format_3f w0 @ '', ''
                        @ python_format_3f w1 @ '', '' @ python_format_3f w2 @ '')'')]\<rparr>))"
    by blast
  from dd d have depth: "depth = 1 / 4" by simp
  then have "depth \<noteq> 1" by simp
  with hit depth obtain w0 w1 w2
    where w: "camera_unproject (pipeline_view (init example_view example_model)) 2 1 (1 / 4)
        (frame_width (frame (pipeline_view (init example_view example_model))))
        (frame_height (frame (pipeline_view (init example_view example_model)))) = (w0, w1, w2)"
      and cb: "depth_callback python_format_3f 2 1 (init example_view example_model) example_depth =
          Inr ((init example_view example_model)
                \<lparr>main_thread_queue := main_thread_queue (init example_view example_model) @
                   [UpdateLabel (''Mouse Coord: ('' @ python_format_3f w0 @ '', ''
                      @ python_format_3f w1 @ '', '' @ python_format_3f w2 @ '')'')]\<rparr>)"
    by blast
  from w cam have ws: "w0 = Finite 2" "w1 = Finite 1" "w2 = Finite (1 / 4)" by simp_all
  have "depth_callback python_format_3f 2 1 (init example_view example_model) example_depth
      = Inr ((init example_view example_model)
               \<lparr>main_thread_queue := [UpdateLabel ''Mouse Coord: (2.000, 1.000, 0.250)'']\<rparr>)"
    unfolding cb ws q format_3f_examples by simp
  note hit_text = this
  note t' = depth_pick_result [OF click issued, of small_depth python_format_3f
      "init example_view example_model"]
  have outside: "\<not> ((1 :: int) < int (fst (depth_shape small_depth))
      \<and> (2 :: int) < int (snd (depth_shape small_depth)))"
    by (simp add: small_depth_def)
  from t' [THEN conjunct2, THEN conjunct2, THEN conjunct1] outside
  have far: "sample_depth small_depth 2 1 = Inr 1" by (rule mp)
  from t' [THEN conjunct2, THEN conjunct2, THEN conjunct2, THEN conjunct2, THEN conjunct1]
  obtain depth' where dd': "sample_depth small_depth 2 1 = Inr depth'"
    and miss: "depth' = 1 \<longrightarrow>
      depth_callback python_format_3f 2 1 (init example_view example_model) small_depth =
        Inr ((init example_view example_model)
              \<lparr>main_thread_queue := main_thread_queue (init example_view example_model) @
                 [UpdateLabel ''Mouse Coord: Clicked on nothing'']\<rparr>)"
    by blast
  from dd' far have one: "depth' = 1" by simp
  from miss one
  have "depth_callback python_format_3f 2 1 (init example_view example_model) small_depth =
        Inr ((init example_view example_model)
              \<lparr>main_thread_queue := main_thread_queue (init example_view example_model) @
                 [UpdateLabel ''Mouse Coord: Clicked on nothing'']\<rparr>)"
    by (rule mp)
  then have miss_text:
    "depth_callback python_format_3f 2 1 (init example_view example_model) small_depth
      = Inr ((init example_view example_model)
               \<lparr>main_thread_queue := [UpdateLabel ''Mouse Coord: Clicked on nothing'']\<rparr>)"
    by (simp add: q)
  from click issued d hit_text far miss_text show ?thesis by (intro conjI)
qed

text \<open>
  Claim C10: \<open>drawing_rectangle\<close> starts as \<open>False\<close> and stays so in every reachable
  state, hence a DRAG or BUTTON_UP event is always reported as ignored and changes
  nothing.
\<close>

theorem drawing_state_unreachable:
  assumes "reachable s"
    and "ev_type event = DRAG \<or> ev_type event = BUTTON_UP"
  shows "drawing_rectangle (init v m) = False
       \<and> drawing_rectangle s = False
       \<and> on_mouse_widget3d s event = (IGNORED, s)"
proof -
  have nd: "\<not> drawing_rectangle s" using assms(1) by (rule reachable_not_drawing)
  have "on_mouse_widget3d s event = (IGNORED, s)"
    using assms(2) nd by (auto simp: on_mouse_widget3d_def)
  with nd show ?thesis by (simp add: init_def)
qed

theorem drawing_state_unreachable_witness:
  "reachable ((init example_view example_model)\<lparr>depth_requests := [DepthCallback 2 1]\<rparr>)
   \<and> (ev_type example_drag = DRAG \<or> ev_type example_drag = BUTTON_UP)
   \<and> edit_mode (pipeline_view
         ((init example_view example_model)\<lparr>depth_requests := [DepthCallback 2 1]\<rparr>))
   \<and> \<not> capturing (pipeline_view
         ((init example_view example_model)\<lparr>depth_requests := [DepthCallback 2 1]\<rparr>))
   \<and> on_mouse_widget3d
         ((init example_view example_model)\<lparr>depth_requests := [DepthCallback 2 1]\<rparr>)
         example_drag
       = (IGNORED, (init example_view example_model)\<lparr>depth_requests := [DepthCallback 2 1]\<rparr>)"
proof -
  have click: "on_mouse_widget3d (init example_view example_model) example_click
      = (HANDLED, (init example_view example_model)\<lparr>depth_requests := [DepthCallback 2 1]\<rparr>)"
    by (simp add: on_mouse_widget3d_def init_def example_view_def example_click_def Let_def)
  have r: "reachable ((init example_view example_model)\<lparr>depth_requests := [DepthCallback 2 1]\<rparr>)"
    by (rule reachable.r_mouse [OF reachable.r_init click])
  have e: "ev_type example_drag = DRAG \<or> ev_type example_drag = BUTTON_UP"
    by (simp add: example_drag_def)
  have v: "edit_mode (pipeline_view
         ((init example_view example_model)\<lparr>depth_requests := [DepthCallback 2 1]\<rparr>))"
    "\<not> capturing (pipeline_view
         ((init example_view example_model)\<lparr>depth_requests := [DepthCallback 2 1]\<rparr>))"
    by (simp_all add: init_def example_view_def)
  show ?thesis
    using drawing_state_unreachable [OF r e] r e v by simp
qed

end
